theory Spec2Isabelle
  imports Complex_Main "HOL-Library.Sublist"
begin

section \<open>Python values\<close>

text \<open>
  The records handled by the program are plain Python objects: the structured output of
  the extraction agent (JSON) and the documents returned by \<^verbatim>\<open>yaml.safe_load\<close>. They
  are modelled by \<open>pyval\<close>: \<^verbatim>\<open>None\<close>, booleans, integers, floats, strings, lists
  and dictionaries. A float is represented by the real number it denotes (the program
  never computes with one; the non-finite floats are outside the model). Strings are
  \<open>string\<close>; case mapping is modelled on the ASCII letters.

  The keys of a Python dictionary are hashable values compared with \<^verbatim>\<open>==\<close>, under
  which \<^verbatim>\<open>True == 1 == 1.0\<close>. \<open>hkey\<close> is the type of such keys up to that
  equality; lists and dictionaries are unhashable and using one as a key raises
  \<^verbatim>\<open>TypeError\<close>. A dictionary is an association list in insertion order.
\<close>

datatype hkey = KNone | KNum real | KStr string

datatype pyval =
    PNone
  | PBool bool
  | PInt int
  | PFloat real
  | PStr string
  | PList "pyval list"
  | PDict "(hkey \<times> pyval) list"

text \<open>
  Exceptions, all of them subclasses of \<^verbatim>\<open>Exception\<close> (what \<^verbatim>\<open>except Exception\<close>
  catches). \<open>HfHubHTTPError\<close> carries the status code of its response.
\<close>

datatype exn =
    HfHubHTTPError int string
  | OSError string
  | AttributeError string
  | TypeError string
  | Exception string

fun is_OSError :: "exn \<Rightarrow> bool" where
  "is_OSError (OSError m) = True"
| "is_OSError e = False"

definition bind_exn :: "exn + 'a \<Rightarrow> ('a \<Rightarrow> exn + 'b) \<Rightarrow> exn + 'b" where
  "bind_exn r f = (case r of Inl e \<Rightarrow> Inl e | Inr x \<Rightarrow> f x)"

text \<open>Truth value of an object, as tested by \<^verbatim>\<open>if x:\<close> and \<^verbatim>\<open>if not x:\<close>.\<close>

fun truthy :: "pyval \<Rightarrow> bool" where
  "truthy PNone = False"
| "truthy (PBool b) = b"
| "truthy (PInt i) = (i \<noteq> 0)"
| "truthy (PFloat x) = (x \<noteq> 0)"
| "truthy (PStr s) = (s \<noteq> [])"
| "truthy (PList xs) = (xs \<noteq> [])"
| "truthy (PDict kvs) = (kvs \<noteq> [])"

fun hash_key :: "pyval \<Rightarrow> exn + hkey" where
  "hash_key PNone = Inr KNone"
| "hash_key (PBool b) = Inr (KNum (if b then 1 else 0))"
| "hash_key (PInt i) = Inr (KNum (of_int i))"
| "hash_key (PFloat x) = Inr (KNum x)"
| "hash_key (PStr s) = Inr (KStr s)"
| "hash_key (PList xs) = Inl (TypeError ''unhashable type: list'')"
| "hash_key (PDict kvs) = Inl (TypeError ''unhashable type: dict'')"

text \<open>\<^verbatim>\<open>obj.get(key, default)\<close>: only a dictionary has the method.\<close>

fun py_get :: "pyval \<Rightarrow> string \<Rightarrow> pyval \<Rightarrow> exn + pyval" where
  "py_get (PDict kvs) k d = Inr (case map_of kvs (KStr k) of Some v \<Rightarrow> v | None \<Rightarrow> d)"
| "py_get v k d = Inl (AttributeError ''get'')"

text \<open>\<^verbatim>\<open>x in d\<close> and \<^verbatim>\<open>d[x] = v\<close> on a dictionary; both hash \<open>x\<close> first.\<close>

definition py_in :: "pyval \<Rightarrow> (hkey \<times> 'v) list \<Rightarrow> exn + bool" where
  "py_in x d = bind_exn (hash_key x) (\<lambda>k. Inr (map_of d k \<noteq> None))"

fun dict_set :: "hkey \<Rightarrow> 'v \<Rightarrow> (hkey \<times> 'v) list \<Rightarrow> (hkey \<times> 'v) list" where
  "dict_set k v [] = [(k, v)]"
| "dict_set k v ((k', v') # kvs) =
     (if k = k' then (k', v) # kvs else (k', v') # dict_set k v kvs)"

definition py_setitem :: "pyval \<Rightarrow> 'v \<Rightarrow> (hkey \<times> 'v) list \<Rightarrow> exn + (hkey \<times> 'v) list" where
  "py_setitem x v d = bind_exn (hash_key x) (\<lambda>k. Inr (dict_set k v d))"

section \<open>Strings and paths\<close>

definition lower_char :: "char \<Rightarrow> char" where
  "lower_char c =
     (case map_of (zip ''ABCDEFGHIJKLMNOPQRSTUVWXYZ'' ''abcdefghijklmnopqrstuvwxyz'') c of
        Some d \<Rightarrow> d | None \<Rightarrow> c)"

definition upper_char :: "char \<Rightarrow> char" where
  "upper_char c =
     (case map_of (zip ''abcdefghijklmnopqrstuvwxyz'' ''ABCDEFGHIJKLMNOPQRSTUVWXYZ'') c of
        Some d \<Rightarrow> d | None \<Rightarrow> c)"

definition py_lower :: "string \<Rightarrow> string" where
  "py_lower s = map lower_char s"

definition py_upper :: "string \<Rightarrow> string" where
  "py_upper s = map upper_char s"

text \<open>\<^verbatim>\<open>s.split(sep)\<close> for a one-character separator: never an empty list.\<close>

fun py_split :: "char \<Rightarrow> string \<Rightarrow> string list" where
  "py_split sep [] = [[]]"
| "py_split sep (c # cs) =
     (if c = sep then [] # py_split sep cs
      else (case py_split sep cs of [] \<Rightarrow> [[c]] | w # ws \<Rightarrow> (c # w) # ws))"

text \<open>\<^verbatim>\<open>s.replace(c, new)\<close> for a one-character \<open>c\<close>.\<close>

definition py_replace :: "char \<Rightarrow> string \<Rightarrow> string \<Rightarrow> string" where
  "py_replace c new s = concat (map (\<lambda>x. if x = c then new else [x]) s)"

definition startswith :: "string \<Rightarrow> string \<Rightarrow> bool" where
  "startswith s p = (take (length p) s = p)"

definition endswith :: "string \<Rightarrow> string \<Rightarrow> bool" where
  "endswith s p = (length p \<le> length s \<and> drop (length s - length p) s = p)"

fun py_join :: "string \<Rightarrow> string list \<Rightarrow> string" where
  "py_join sep [] = []"
| "py_join sep [x] = x"
| "py_join sep (x # y # ys) = x @ sep @ py_join sep (y # ys)"

text \<open>
  \<^verbatim>\<open>OUTPUTS_DIR = Path(__file__).parent / "outputs"\<close> in main.py, and the same directory
  \<^verbatim>\<open>Path(__file__).parent.parent / "outputs"\<close> seen from utils/hf_utils.py. Paths are
  strings relative to the directory of main.py. \<open>path_join\<close> is \<^verbatim>\<open>dir / name\<close> for a
  \<open>name\<close> without separator: an empty or \<^verbatim>\<open>"."\<close> component is dropped by pathlib.
\<close>

definition OUTPUTS_DIR :: string where
  "OUTPUTS_DIR = ''outputs''"

definition path_join :: "string \<Rightarrow> string \<Rightarrow> string" where
  "path_join dir name = (if name = [] \<or> name = ''.'' then dir else dir @ ''/'' @ name)"

section \<open>Artifact file names\<close>

text \<open>
  main.py, \<^verbatim>\<open>write_output\<close>, lines 127-128, and utils/hf_utils.py,
  \<^verbatim>\<open>create_eval_results_pr\<close>, lines 256-257: the two writers compute the name of the
  artifact file from the dataset id with the same two statements,
  \<^verbatim>\<open>dataset_name = dataset_id.split("/")[-1].lower()\<close> and
  \<^verbatim>\<open>filename = f"{dataset_name}.yaml"\<close>. The last element of a list is \<open>last\<close>;
  \<open>py_split\<close> never returns an empty list.
\<close>

definition local_dataset_name :: "string \<Rightarrow> string" where
  "local_dataset_name dataset_id = py_lower (last (py_split (CHR ''/'') dataset_id))"

definition local_filename :: "string \<Rightarrow> string" where
  "local_filename dataset_id = local_dataset_name dataset_id @ ''.yaml''"

definition staging_dataset_name :: "string \<Rightarrow> string" where
  "staging_dataset_name dataset_id = py_lower (last (py_split (CHR ''/'') dataset_id))"

definition staging_filename :: "string \<Rightarrow> string" where
  "staging_filename dataset_id = staging_dataset_name dataset_id @ ''.yaml''"

text \<open>
  The spec's wording of the stem: the substring of the id after its last \<^verbatim>\<open>/\<close> (the
  whole id when it has none), lowercased.
\<close>

definition after_last_separator :: "string \<Rightarrow> string" where
  "after_last_separator s = rev (takeWhile (\<lambda>c. c \<noteq> CHR ''/'') (rev s))"

definition spec_stem :: "string \<Rightarrow> string" where
  "spec_stem dataset_id = py_lower (after_last_separator dataset_id)"

section \<open>Existing results and the dedup filter\<close>

text \<open>
  The value stored per benchmark by \<^verbatim>\<open>get_existing_eval_results\<close>: a dictionary with
  the keys \<^verbatim>\<open>source\<close>, \<^verbatim>\<open>pr_num\<close>, \<^verbatim>\<open>value\<close> and \<^verbatim>\<open>file_path\<close>.
\<close>

record info =
  source :: string
  pr_num :: "int option"
  "value" :: pyval
  file_path :: string

type_synonym index = "(hkey \<times> info) list"

text \<open>
  utils/hf_utils.py, lines 223-226: the list comprehension
  \<^verbatim>\<open>[r for r in results if r.get("dataset", {}).get("id") not in existing_results]\<close>.
  \<open>is_new\<close> is its condition; an exception raised by the condition ends the
  comprehension.
\<close>

definition is_new :: "index \<Rightarrow> pyval \<Rightarrow> exn + bool" where
  "is_new existing_results r =
     bind_exn (py_get r ''dataset'' (PDict [])) (\<lambda>dataset.
     bind_exn (py_get dataset ''id'' PNone) (\<lambda>dataset_id.
     bind_exn (py_in dataset_id existing_results) (\<lambda>found.
     Inr (\<not> found))))"

fun filter_existing :: "pyval list \<Rightarrow> index \<Rightarrow> exn + pyval list" where
  "filter_existing [] existing_results = Inr []"
| "filter_existing (r # rs) existing_results =
     bind_exn (is_new existing_results r) (\<lambda>keep.
     bind_exn (filter_existing rs existing_results) (\<lambda>rs'.
     Inr (if keep then r # rs' else rs')))"

text \<open>
  The \<^verbatim>\<open>dataset.id\<close> of a record as the spec speaks of it: the value under \<^verbatim>\<open>id\<close>
  of the object under \<^verbatim>\<open>dataset\<close>, \<^verbatim>\<open>None\<close> when either is missing. A record is
  \<open>well_shaped\<close> when it is an object whose \<^verbatim>\<open>dataset\<close>, if present, is an object
  whose \<^verbatim>\<open>id\<close>, if present, is a scalar; every record that conforms to the extraction
  schema is.
\<close>

fun entry :: "pyval \<Rightarrow> string \<Rightarrow> pyval option" where
  "entry (PDict kvs) k = map_of kvs (KStr k)"
| "entry v k = None"

definition record_dataset_id :: "pyval \<Rightarrow> pyval" where
  "record_dataset_id r =
     (case entry r ''dataset'' of
        None \<Rightarrow> PNone
      | Some dataset \<Rightarrow> (case entry dataset ''id'' of None \<Rightarrow> PNone | Some i \<Rightarrow> i))"

fun is_dict :: "pyval \<Rightarrow> bool" where
  "is_dict (PDict kvs) = True"
| "is_dict v = False"

fun is_scalar :: "pyval \<Rightarrow> bool" where
  "is_scalar (PList xs) = False"
| "is_scalar (PDict kvs) = False"
| "is_scalar v = True"

definition well_shaped :: "pyval \<Rightarrow> bool" where
  "well_shaped r =
     (is_dict r \<and>
      (case entry r ''dataset'' of
         None \<Rightarrow> True
       | Some dataset \<Rightarrow>
           is_dict dataset \<and> (case entry dataset ''id'' of None \<Rightarrow> True | Some i \<Rightarrow> is_scalar i)))"

text \<open>The id is a key of the index: some key of the index equals it.\<close>

definition is_key_of :: "pyval \<Rightarrow> index \<Rightarrow> bool" where
  "is_key_of x existing_results =
     (case hash_key x of Inl e \<Rightarrow> False | Inr k \<Rightarrow> k \<in> fst ` set existing_results)"

section \<open>The world: printed lines, calls, files\<close>

text \<open>
  A printed line is the sequence of the pieces of its f-string: literal text and the
  interpolated values (\<^verbatim>\<open>str()\<close> of a value or of an exception is not modelled).
\<close>

datatype frag = FStr string | FInt int | FVal pyval | FKey hkey | FExn exn

type_synonym line = "frag list"

text \<open>
  The revision of a remote call: the default branch, or \<^verbatim>\<open>f"refs/pr/{pr.num}"\<close>.
\<close>

datatype revision = DefaultRevision | RefsPr int

record discussion =
  num :: int
  is_pull_request :: bool
  status :: string

text \<open>\<^verbatim>\<open>CommitOperationAdd(path_in_repo=..., path_or_fileobj=...)\<close>.\<close>

record operation =
  path_in_repo :: string
  path_or_fileobj :: string

text \<open>The calls to the Hub client and to the operating system, with their arguments.\<close>

datatype call =
    ListRepoFiles string string revision
  | HfHubDownload string string string revision
  | GetRepoDiscussions string string
  | CreateCommit string "operation list" string string string
  | ReadFile string
  | Makedirs string
  | WriteFile string string
  | Remove string
  | Rmdir string

fun is_remote :: "call \<Rightarrow> bool" where
  "is_remote (ListRepoFiles repo_id repo_type revision) = True"
| "is_remote (HfHubDownload repo_id filename repo_type revision) = True"
| "is_remote (GetRepoDiscussions repo_id repo_type) = True"
| "is_remote (CreateCommit repo_id ops title description repo_type) = True"
| "is_remote c = False"

fun is_write :: "call \<Rightarrow> bool" where
  "is_write (WriteFile path content) = True"
| "is_write c = False"

text \<open>
  What lies outside the program: the answers of the Hub (fixed during a run: a value or
  the exception raised), the content of the files of the Hub cache (\<open>resp_read_yaml\<close>
  is \<^verbatim>\<open>open\<close> followed by \<^verbatim>\<open>yaml.safe_load\<close>, \<open>resp_read_file\<close> is \<^verbatim>\<open>open\<close>
  followed by \<^verbatim>\<open>read\<close>), the serialiser \<^verbatim>\<open>yaml.dump\<close>, and the errors of the
  operating system: \<open>os_error env cs c\<close> is the message of the \<^verbatim>\<open>OSError\<close> with which
  the call \<open>c\<close> fails after the calls \<open>cs\<close>, if it does.
\<close>

record env =
  resp_list_repo_files :: "string \<Rightarrow> string \<Rightarrow> revision \<Rightarrow> exn + string list"
  resp_hf_hub_download :: "string \<Rightarrow> string \<Rightarrow> string \<Rightarrow> revision \<Rightarrow> exn + string"
  resp_read_yaml :: "string \<Rightarrow> exn + pyval"
  resp_read_file :: "string \<Rightarrow> exn + string"
  resp_get_repo_discussions :: "string \<Rightarrow> string \<Rightarrow> exn + discussion list"
  resp_create_commit ::
    "string \<Rightarrow> operation list \<Rightarrow> string \<Rightarrow> string \<Rightarrow> string \<Rightarrow> exn + string"
  yaml_dump :: "pyval \<Rightarrow> string"
  os_error :: "call list \<Rightarrow> call \<Rightarrow> string option"

text \<open>
  The state: what was printed, the calls made, the regular files of the local file system
  with their content, and the mutable local variables of the functions (they keep their
  content when an exception unwinds a loop, and the \<^verbatim>\<open>finally\<close> block reads them).
\<close>

record state =
  out :: "line list"
  calls :: "call list"
  files :: "string \<rightharpoonup> string"
  existing_results :: index
  temp_files :: "string list"
  operations :: "operation list"
  benchmark_names :: "string list"
  benchmark_ids :: "string list"
  written_files :: "string list"

type_synonym 'a io = "state \<Rightarrow> (exn + 'a) \<times> state"

definition io_return :: "'a \<Rightarrow> 'a io" where
  "io_return x = (\<lambda>s. (Inr x, s))"

definition io_raise :: "exn \<Rightarrow> 'a io" where
  "io_raise e = (\<lambda>s. (Inl e, s))"

definition io_lift :: "exn + 'a \<Rightarrow> 'a io" where
  "io_lift r = (\<lambda>s. (r, s))"

definition io_get :: "(state \<Rightarrow> 'a) \<Rightarrow> 'a io" where
  "io_get f = (\<lambda>s. (Inr (f s), s))"

definition io_modify :: "(state \<Rightarrow> state) \<Rightarrow> unit io" where
  "io_modify f = (\<lambda>s. (Inr (), f s))"

definition io_bind :: "'a io \<Rightarrow> ('a \<Rightarrow> 'b io) \<Rightarrow> 'b io" where
  "io_bind m f = (\<lambda>s. case m s of (Inl e, s') \<Rightarrow> (Inl e, s') | (Inr x, s') \<Rightarrow> f x s')"

text \<open>\<^verbatim>\<open>try: m except Exception as e: h e\<close>.\<close>

definition try_except :: "'a io \<Rightarrow> (exn \<Rightarrow> 'a io) \<Rightarrow> 'a io" where
  "try_except m h = (\<lambda>s. case m s of (Inl e, s') \<Rightarrow> h e s' | (Inr x, s') \<Rightarrow> (Inr x, s'))"

text \<open>\<^verbatim>\<open>try: m except OSError: pass\<close>: any other exception propagates.\<close>

definition try_except_OSError_pass :: "unit io \<Rightarrow> unit io" where
  "try_except_OSError_pass m =
     (\<lambda>s. case m s of
        (Inl e, s') \<Rightarrow> if is_OSError e then (Inr (), s') else (Inl e, s')
      | (Inr x, s') \<Rightarrow> (Inr x, s'))"

text \<open>
  \<^verbatim>\<open>try: m finally: c\<close>: \<open>c\<close> runs whatever \<open>m\<close> did; the outcome is that of \<open>m\<close>
  unless \<open>c\<close> itself raises.
\<close>

definition try_finally :: "'a io \<Rightarrow> unit io \<Rightarrow> 'a io" where
  "try_finally m c =
     (\<lambda>s. case m s of (r, s') \<Rightarrow>
        (case c s' of (Inl e, s'') \<Rightarrow> (Inl e, s'') | (Inr u, s'') \<Rightarrow> (r, s'')))"

text \<open>\<^verbatim>\<open>for x in xs: f x\<close>: an exception of the body ends the loop.\<close>

fun for_each :: "('a \<Rightarrow> unit io) \<Rightarrow> 'a list \<Rightarrow> unit io" where
  "for_each f [] = io_return ()"
| "for_each f (x # xs) = io_bind (f x) (\<lambda>u. for_each f xs)"

definition print :: "line \<Rightarrow> unit io" where
  "print l = io_modify (\<lambda>s. s\<lparr>out := out s @ [l]\<rparr>)"

definition record_call :: "call \<Rightarrow> state \<Rightarrow> state" where
  "record_call c s = s\<lparr>calls := calls s @ [c]\<rparr>"

subsection \<open>Calls to the Hub client and the cache\<close>

definition list_repo_files :: "env \<Rightarrow> string \<Rightarrow> string \<Rightarrow> revision \<Rightarrow> string list io" where
  "list_repo_files env repo_id repo_type revision =
     (\<lambda>s. (resp_list_repo_files env repo_id repo_type revision,
            record_call (ListRepoFiles repo_id repo_type revision) s))"

definition hf_hub_download ::
  "env \<Rightarrow> string \<Rightarrow> string \<Rightarrow> string \<Rightarrow> revision \<Rightarrow> string io" where
  "hf_hub_download env repo_id filename repo_type revision =
     (\<lambda>s. (resp_hf_hub_download env repo_id filename repo_type revision,
            record_call (HfHubDownload repo_id filename repo_type revision) s))"

definition get_repo_discussions :: "env \<Rightarrow> string \<Rightarrow> string \<Rightarrow> discussion list io" where
  "get_repo_discussions env repo_id repo_type =
     (\<lambda>s. (resp_get_repo_discussions env repo_id repo_type,
            record_call (GetRepoDiscussions repo_id repo_type) s))"

definition create_commit ::
  "env \<Rightarrow> string \<Rightarrow> operation list \<Rightarrow> string \<Rightarrow> string \<Rightarrow> string \<Rightarrow> string io" where
  "create_commit env repo_id ops commit_message commit_description repo_type =
     (\<lambda>s. (resp_create_commit env repo_id ops commit_message commit_description repo_type,
            record_call (CreateCommit repo_id ops commit_message commit_description repo_type) s))"

definition read_yaml :: "env \<Rightarrow> string \<Rightarrow> pyval io" where
  "read_yaml env path = (\<lambda>s. (resp_read_yaml env path, record_call (ReadFile path) s))"

definition read_file :: "env \<Rightarrow> string \<Rightarrow> string io" where
  "read_file env path = (\<lambda>s. (resp_read_file env path, record_call (ReadFile path) s))"

subsection \<open>Calls to the operating system\<close>

definition os_call :: "env \<Rightarrow> call \<Rightarrow> (state \<Rightarrow> state) \<Rightarrow> unit io" where
  "os_call env c effect =
     (\<lambda>s. case os_error env (calls s) c of
        Some m \<Rightarrow> (Inl (OSError m), record_call c s)
      | None \<Rightarrow> (Inr (), effect (record_call c s)))"

text \<open>\<^verbatim>\<open>os.makedirs(dir, exist_ok=True)\<close> and \<^verbatim>\<open>Path.mkdir(parents=True, exist_ok=True)\<close>.\<close>

definition os_makedirs :: "env \<Rightarrow> string \<Rightarrow> unit io" where
  "os_makedirs env dir = os_call env (Makedirs dir) (\<lambda>s. s)"

text \<open>
  \<^verbatim>\<open>with open(path, "w", encoding="utf-8") as f: f.write(content)\<close>, in one step: the
  file holds the content, or the call fails and the file is as before.
\<close>

definition write_file :: "env \<Rightarrow> string \<Rightarrow> string \<Rightarrow> unit io" where
  "write_file env path content =
     os_call env (WriteFile path content) (\<lambda>s. s\<lparr>files := (files s)(path \<mapsto> content)\<rparr>)"

text \<open>\<^verbatim>\<open>os.remove(path)\<close>: fails on a file that is not there.\<close>

definition os_remove :: "env \<Rightarrow> string \<Rightarrow> unit io" where
  "os_remove env path =
     (\<lambda>s. if files s path = None
           then (Inl (OSError ''FileNotFoundError''), record_call (Remove path) s)
           else os_call env (Remove path) (\<lambda>s. s\<lparr>files := (files s)(path := None)\<rparr>) s)"

definition os_rmdir :: "env \<Rightarrow> string \<Rightarrow> unit io" where
  "os_rmdir env dir = os_call env (Rmdir dir) (\<lambda>s. s)"

section \<open>utils/hf_utils.py: \<^verbatim>\<open>get_existing_eval_results\<close>\<close>

text \<open>Lines 49 and 99: \<^verbatim>\<open>f.startswith(".eval_results/") and f.endswith(".yaml")\<close>.\<close>

definition is_eval_file :: "string \<Rightarrow> bool" where
  "is_eval_file f = (startswith f ''.eval_results/'' \<and> endswith f ''.yaml'')"

fun is_list :: "pyval \<Rightarrow> bool" where
  "is_list (PList xs) = True"
| "is_list v = False"

fun list_items :: "pyval \<Rightarrow> pyval list" where
  "list_items (PList xs) = xs"
| "list_items v = []"

text \<open>\<^verbatim>\<open>existing_results[dataset_id] = item\<close>.\<close>

definition setitem_existing_results :: "pyval \<Rightarrow> info \<Rightarrow> unit io" where
  "setitem_existing_results dataset_id item =
     (\<lambda>s. case py_setitem dataset_id item (existing_results s) of
        Inl e \<Rightarrow> (Inl e, s)
      | Inr d \<Rightarrow> (Inr (), s\<lparr>existing_results := d\<rparr>))"

text \<open>Lines 68-75: the body of the loop over the records of a file of the main branch.\<close>

definition record_main_result :: "string \<Rightarrow> pyval \<Rightarrow> unit io" where
  "record_main_result eval_file result =
     io_bind (io_lift (py_get result ''dataset'' (PDict []))) (\<lambda>dataset.
     io_bind (io_lift (py_get dataset ''id'' PNone)) (\<lambda>dataset_id.
     if truthy dataset_id then
       io_bind (io_lift (py_get result ''value'' PNone)) (\<lambda>v.
       setitem_existing_results dataset_id
         \<lparr>source = ''main'', pr_num = None, value = v, file_path = eval_file\<rparr>)
     else io_return ()))"

text \<open>Lines 52-77: one file of the main branch, inside its own \<^verbatim>\<open>try\<close>.\<close>

definition read_main_file :: "env \<Rightarrow> string \<Rightarrow> string \<Rightarrow> string \<Rightarrow> unit io" where
  "read_main_file env repo_id repo_type eval_file =
     try_except
       (io_bind (hf_hub_download env repo_id eval_file repo_type DefaultRevision) (\<lambda>path.
        io_bind (read_yaml env path) (\<lambda>content.
        if is_list content \<and> truthy content
        then for_each (record_main_result eval_file) (list_items content)
        else io_return ())))
       (\<lambda>e. print [FStr ''Warning: Could not read '', FStr eval_file,
                     FStr '' from main branch: '', FExn e])"

text \<open>Lines 45-79: the scan of the main branch.\<close>

definition scan_main :: "env \<Rightarrow> string \<Rightarrow> string \<Rightarrow> unit io" where
  "scan_main env repo_id repo_type =
     try_except
       (io_bind (list_repo_files env repo_id repo_type DefaultRevision) (\<lambda>fs.
        for_each (read_main_file env repo_id repo_type) (filter is_eval_file fs)))
       (\<lambda>e. print [FStr ''Warning: Could not list files from '', FStr repo_id, FStr '': '',
                     FExn e])"

text \<open>
  Lines 122-129: the body of the loop over the records of a file of an open pull request;
  \<^verbatim>\<open>dataset_id and dataset_id not in existing_results\<close> tests membership only for a
  true \<open>dataset_id\<close>.
\<close>

definition record_pr_result :: "discussion \<Rightarrow> string \<Rightarrow> pyval \<Rightarrow> unit io" where
  "record_pr_result pr eval_file result =
     io_bind (io_lift (py_get result ''dataset'' (PDict []))) (\<lambda>dataset.
     io_bind (io_lift (py_get dataset ''id'' PNone)) (\<lambda>dataset_id.
     if truthy dataset_id then
       io_bind (io_get existing_results) (\<lambda>existing.
       io_bind (io_lift (py_in dataset_id existing)) (\<lambda>found.
       if \<not> found then
         io_bind (io_lift (py_get result ''value'' PNone)) (\<lambda>v.
         setitem_existing_results dataset_id
           \<lparr>source = ''pr'', pr_num = Some (num pr), value = v, file_path = eval_file\<rparr>)
       else io_return ()))
     else io_return ()))"

text \<open>
  Lines 101-131: one file of a pull request. (The \<^verbatim>\<open>benchmark_name\<close> of line 103 is
  never read.)
\<close>

definition read_pr_file :: "env \<Rightarrow> string \<Rightarrow> string \<Rightarrow> discussion \<Rightarrow> string \<Rightarrow> unit io" where
  "read_pr_file env repo_id repo_type pr eval_file =
     try_except
       (io_bind (hf_hub_download env repo_id eval_file repo_type (RefsPr (num pr))) (\<lambda>path.
        io_bind (read_yaml env path) (\<lambda>content.
        if is_list content \<and> truthy content
        then for_each (record_pr_result pr eval_file) (list_items content)
        else io_return ())))
       (\<lambda>e. print [FStr ''Warning: Could not read '', FStr eval_file, FStr '' from PR #'',
                     FInt (num pr), FStr '': '', FExn e])"

text \<open>Lines 90-133: one open pull request.\<close>

definition scan_pr :: "env \<Rightarrow> string \<Rightarrow> string \<Rightarrow> discussion \<Rightarrow> unit io" where
  "scan_pr env repo_id repo_type pr =
     try_except
       (io_bind (list_repo_files env repo_id repo_type (RefsPr (num pr))) (\<lambda>pr_files.
        for_each (read_pr_file env repo_id repo_type pr) (filter is_eval_file pr_files)))
       (\<lambda>e. print [FStr ''Warning: Could not check PR #'', FInt (num pr), FStr '': '', FExn e])"

text \<open>Line 88: \<^verbatim>\<open>[d for d in discussions if d.is_pull_request and d.status == "open"]\<close>.\<close>

definition open_prs_of :: "discussion list \<Rightarrow> discussion list" where
  "open_prs_of discussions = filter (\<lambda>d. is_pull_request d \<and> status d = ''open'') discussions"

text \<open>
  Lines 82-135: the scan of the open pull requests. (The construction \<^verbatim>\<open>HfApi()\<close> of
  line 83 lies inside the same \<^verbatim>\<open>try\<close> as the enumeration and is not told apart from
  it.)
\<close>

definition scan_prs :: "env \<Rightarrow> string \<Rightarrow> string \<Rightarrow> unit io" where
  "scan_prs env repo_id repo_type =
     try_except
       (io_bind (get_repo_discussions env repo_id repo_type) (\<lambda>discussions.
        for_each (scan_pr env repo_id repo_type) (open_prs_of discussions)))
       (\<lambda>e. print [FStr ''Warning: Could not list PRs for '', FStr repo_id, FStr '': '', FExn e])"

definition get_existing_eval_results :: "env \<Rightarrow> string \<Rightarrow> string \<Rightarrow> index io" where
  "get_existing_eval_results env repo_id repo_type =
     io_bind (io_modify (\<lambda>s. s\<lparr>existing_results := []\<rparr>)) (\<lambda>u.
     io_bind (scan_main env repo_id repo_type) (\<lambda>u.
     io_bind (scan_prs env repo_id repo_type) (\<lambda>u.
     io_get existing_results)))"

section \<open>utils/hf_utils.py: \<^verbatim>\<open>fetch_huggingface_readme\<close>\<close>



section \<open>utils/hf_utils.py: \<^verbatim>\<open>create_eval_results_pr\<close>\<close>

text \<open>
  The argument \<^verbatim>\<open>evaluation_results\<close> is a dictionary whose entry
  \<^verbatim>\<open>"evaluation_results"\<close>, when present, is a list: \<open>None\<close> stands for the
  dictionary without the entry, for which \<^verbatim>\<open>.get("evaluation_results", [])\<close> is the
  empty list.
\<close>

definition get_evaluation_results :: "pyval list option \<Rightarrow> pyval list" where
  "get_evaluation_results evaluation_results =
     (case evaluation_results of None \<Rightarrow> [] | Some rs \<Rightarrow> rs)"

definition newline :: string where
  "newline = [CHR 0x0A]"

text \<open>Lines 215-219: the report of what already exists.\<close>

definition source_desc :: "info \<Rightarrow> line" where
  "source_desc i =
     (if source i = ''main'' then [FStr ''main branch'']
      else [FStr ''open PR #'', FVal (case pr_num i of None \<Rightarrow> PNone | Some n \<Rightarrow> PInt n)])"

definition print_existing :: "string \<Rightarrow> index \<Rightarrow> unit io" where
  "print_existing repo_id existing =
     (if existing \<noteq> [] then
        io_bind (print [FStr ''Found existing evaluation results for '', FStr repo_id, FStr '':''])
          (\<lambda>u. for_each
             (\<lambda>(dataset_id, i).
                print ([FStr ''  - '', FKey dataset_id, FStr '': '', FVal (value i), FStr '' (''] @
                       source_desc i @ [FStr '')'']))
             existing)
      else io_return ())"

text \<open>
  Lines 212-234, the block under \<^verbatim>\<open>if skip_existing:\<close>. Its result is \<open>None\<close> when
  the function returns \<^verbatim>\<open>None\<close> at line 234, and the filtered results otherwise.
\<close>

definition skip_existing_results ::
  "env \<Rightarrow> string \<Rightarrow> string \<Rightarrow> pyval list \<Rightarrow> pyval list option io" where
  "skip_existing_results env repo_id repo_type results =
     io_bind (get_existing_eval_results env repo_id repo_type) (\<lambda>existing.
     io_bind (print_existing repo_id existing) (\<lambda>u.
     io_bind (io_lift (filter_existing results existing)) (\<lambda>results'.
     let original_count = int (length results);
         skipped_count = original_count - int (length results')
     in
     io_bind
       (if skipped_count > 0
        then print [FStr ''Skipping '', FInt skipped_count,
                    FStr '' benchmark(s) with existing results'']
        else io_return ())
       (\<lambda>u.
     if results' = [] then
       io_bind (print [FStr ''All evaluation results already exist for '', FStr repo_id,
                       FStr '', skipping PR creation''])
         (\<lambda>u. io_return None)
     else io_return (Some results')))))"

text \<open>Lines 237-238.\<close>

definition sanitized_repo_id :: "string \<Rightarrow> string" where
  "sanitized_repo_id repo_id = py_replace (CHR 0x5C) ''_'' (py_replace (CHR ''/'') ''_'' repo_id)"

definition temp_dir :: "string \<Rightarrow> string" where
  "temp_dir repo_id = path_join OUTPUTS_DIR (''temp_'' @ sanitized_repo_id repo_id)"

text \<open>A string method (\<^verbatim>\<open>.split\<close>) called on an object: only a string has it.\<close>

fun str_method :: "pyval \<Rightarrow> exn + string" where
  "str_method (PStr s) = Inr s"
| "str_method v = Inl (AttributeError ''split'')"

text \<open>Lines 249-284: the body of the loop that stages one result.\<close>

definition stage_result :: "env \<Rightarrow> string \<Rightarrow> pyval \<Rightarrow> unit io" where
  "stage_result env dir result =
     io_bind (io_lift (py_get result ''dataset'' (PDict []))) (\<lambda>dataset.
     io_bind (io_lift (py_get dataset ''id'' (PStr []))) (\<lambda>dataset_id.
     if \<not> truthy dataset_id then
       print [FStr ''Warning: Skipping result with missing dataset ID: '', FVal result]
     else
       io_bind (io_lift (str_method dataset_id)) (\<lambda>id_str.
       let dataset_name = staging_dataset_name id_str;
           filename = staging_filename id_str;
           temp_path = path_join dir filename;
           yaml_content = yaml_dump env (PList [result])
       in
       io_bind (write_file env temp_path yaml_content) (\<lambda>u.
       io_modify (\<lambda>s. s\<lparr>temp_files := temp_files s @ [temp_path],
                          benchmark_names := benchmark_names s @ [py_upper dataset_name],
                          benchmark_ids := benchmark_ids s @ [id_str],
                          operations := operations s @
                            [\<lparr>path_in_repo = ''.eval_results/'' @ filename,
                              path_or_fileobj = temp_path\<rparr>]\<rparr>)))))"

text \<open>Lines 291-298: the title and the description of the pull request.\<close>

definition pr_title :: "string list \<Rightarrow> string" where
  "pr_title names = ''Add community evaluation results for '' @ py_join '', '' names"

definition pr_description :: "string list \<Rightarrow> string list \<Rightarrow> string" where
  "pr_description names ids =
     ''This PR adds community-provided evaluation results for the following benchmarks:'' @
     newline @ newline @
     ''- '' @
     py_join newline
       (map (\<lambda>(name, i). ''**['' @ name @ ''](https://huggingface.co/datasets/'' @ i @ '')**'')
          (zip names ids)) @
     newline @ newline @
     ''These results were extracted from the model card. This is based on the new [evaluation results feature](https://huggingface.co/docs/hub/eval-results).'' @
     ''*Note: This is an automated PR. Please review the evaluation results before merging.*''"

text \<open>Lines 286-313: the submission of the staged operations.\<close>

definition submit_operations :: "env \<Rightarrow> string \<Rightarrow> string \<Rightarrow> string option io" where
  "submit_operations env repo_id repo_type =
     io_bind (io_get operations) (\<lambda>ops.
     if ops = [] then
       io_bind (print [FStr ''No valid evaluation results to submit for '', FStr repo_id])
         (\<lambda>u. io_return None)
     else
       io_bind (io_get benchmark_names) (\<lambda>names.
       io_bind (io_get benchmark_ids) (\<lambda>ids.
       io_bind (create_commit env repo_id ops (pr_title names) (pr_description names ids)
                  repo_type) (\<lambda>pr_url.
       io_bind (print [FStr ''PR created successfully at '', FStr repo_id, FStr '': '',
                       FStr pr_url]) (\<lambda>u.
       io_return (Some pr_url))))))"

text \<open>Lines 246-317: the \<^verbatim>\<open>try\<close> block with its handler, which prints and re-raises.\<close>

definition stage_and_submit ::
  "env \<Rightarrow> string \<Rightarrow> string \<Rightarrow> pyval list \<Rightarrow> string option io" where
  "stage_and_submit env repo_id repo_type results =
     try_except
       (io_bind (for_each (stage_result env (temp_dir repo_id)) results) (\<lambda>u.
        submit_operations env repo_id repo_type))
       (\<lambda>e. io_bind (print [FStr ''Error creating PR for '', FStr repo_id, FStr '': '', FExn e])
          (\<lambda>u. io_raise e))"

text \<open>Lines 318-329: the \<^verbatim>\<open>finally\<close> block.\<close>

definition cleanup :: "env \<Rightarrow> string \<Rightarrow> unit io" where
  "cleanup env repo_id =
     io_bind (io_get temp_files) (\<lambda>staged.
     io_bind (for_each (\<lambda>temp_path. try_except_OSError_pass (os_remove env temp_path)) staged)
       (\<lambda>u.
     try_except_OSError_pass (os_rmdir env (temp_dir repo_id))))"

text \<open>Lines 246-329: the whole \<^verbatim>\<open>try\<close> statement.\<close>

definition staging_statement ::
  "env \<Rightarrow> string \<Rightarrow> string \<Rightarrow> pyval list \<Rightarrow> string option io" where
  "staging_statement env repo_id repo_type results =
     try_finally (stage_and_submit env repo_id repo_type results) (cleanup env repo_id)"

definition create_eval_results_pr ::
  "env \<Rightarrow> string \<Rightarrow> pyval list option \<Rightarrow> string \<Rightarrow> bool \<Rightarrow> string option io" where
  "create_eval_results_pr env repo_id evaluation_results repo_type skip_existing =
     (let results = get_evaluation_results evaluation_results in
      if results = [] then
        io_bind (print [FStr ''No evaluation results to submit for '', FStr repo_id])
          (\<lambda>u. io_return None)
      else
        io_bind
          (if skip_existing then skip_existing_results env repo_id repo_type results
           else io_return (Some results))
          (\<lambda>remaining.
             case remaining of
               None \<Rightarrow> io_return None
             | Some results' \<Rightarrow>
                 io_bind (os_makedirs env (temp_dir repo_id)) (\<lambda>u.
                 io_bind (io_modify (\<lambda>s. s\<lparr>temp_files := [], operations := [],
                                              benchmark_names := [], benchmark_ids := []\<rparr>))
                   (\<lambda>u.
                 staging_statement env repo_id repo_type results'))))"

section \<open>main.py: \<^verbatim>\<open>write_output\<close>\<close>

text \<open>\<^verbatim>\<open>filepath.name\<close>: the last component of a path.\<close>

definition path_name :: "string \<Rightarrow> string" where
  "path_name path = last (py_split (CHR ''/'') path)"

text \<open>Lines 119-137: the body of the loop that writes one result.\<close>

definition write_result :: "env \<Rightarrow> string \<Rightarrow> pyval \<Rightarrow> unit io" where
  "write_result env output_folder result =
     io_bind (io_lift (py_get result ''dataset'' (PDict []))) (\<lambda>dataset.
     io_bind (io_lift (py_get dataset ''id'' (PStr []))) (\<lambda>dataset_id.
     if \<not> truthy dataset_id then
       print [FStr ''Warning: Skipping result with missing dataset ID: '', FVal result]
     else
       io_bind (io_lift (str_method dataset_id)) (\<lambda>id_str.
       let filename = local_filename id_str;
           output_path = path_join output_folder filename;
           yaml_content = yaml_dump env (PList [result])
       in
       io_bind (write_file env output_path yaml_content) (\<lambda>u.
       io_modify (\<lambda>s. s\<lparr>written_files := written_files s @ [output_path]\<rparr>)))))"

definition output_folder_of :: "string \<Rightarrow> string" where
  "output_folder_of repo_id = path_join OUTPUTS_DIR (py_replace (CHR ''/'') ''__'' repo_id)"

definition write_output :: "env \<Rightarrow> string \<Rightarrow> pyval list option \<Rightarrow> unit io" where
  "write_output env repo_id evaluation_results =
     (let output_folder = output_folder_of repo_id in
      io_bind (os_makedirs env output_folder) (\<lambda>u.
      let results = get_evaluation_results evaluation_results in
      if results = [] then
        print [FStr (newline @ ''No evaluation results to write for ''), FStr repo_id]
      else
        io_bind (io_modify (\<lambda>s. s\<lparr>written_files := []\<rparr>)) (\<lambda>u.
        io_bind (for_each (write_result env output_folder) results) (\<lambda>u.
        io_bind (print [FStr (newline @ ''Results written to ''), FStr output_folder, FStr ''/:''])
          (\<lambda>u.
        io_bind (io_get written_files) (\<lambda>written.
        for_each (\<lambda>filepath. print [FStr ''  - '', FStr (path_name filepath)]) written))))))"

section \<open>Example inputs\<close>

text \<open>A record with a dataset id and a value, and nothing else.\<close>

definition result_record :: "string \<Rightarrow> real \<Rightarrow> pyval" where
  "result_record dataset_id v =
     PDict [(KStr ''dataset'', PDict [(KStr ''id'', PStr dataset_id)]), (KStr ''value'', PFloat v)]"

definition hle_record :: pyval where
  "hle_record =
     PDict [(KStr ''dataset'', PDict [(KStr ''id'', PStr ''cais/hle'')]),
            (KStr ''value'', PFloat 42)]"

definition gsm8k_record :: pyval where
  "gsm8k_record =
     PDict [(KStr ''dataset'', PDict [(KStr ''id'', PStr ''openai/gsm8k'')]),
            (KStr ''value'', PFloat 91)]"

definition hle_published :: index where
  "hle_published =
     [(KStr ''cais/hle'',
       \<lparr>source = ''main'', pr_num = None, value = PFloat 40,
        file_path = ''.eval_results/hle.yaml''\<rparr>)]"

text \<open>
  A state in which nothing has happened yet, and a Hub on which every repository is
  empty: no file, no discussion, every download answered with status 404; commits are
  accepted and the operating system raises no error.
\<close>

definition initial_state :: state where
  "initial_state =
     \<lparr>out = [], calls = [], files = Map.empty, existing_results = [], temp_files = [],
      operations = [], benchmark_names = [], benchmark_ids = [], written_files = []\<rparr>"

definition example_dump :: "pyval \<Rightarrow> string" where
  "example_dump v =
     (if v = PList [hle_record]
      then ''- dataset:'' @ newline @ ''    id: cais/hle'' @ newline @ ''  value: 42.0'' @ newline
      else if v = PList [gsm8k_record]
      then ''- dataset:'' @ newline @ ''    id: openai/gsm8k'' @ newline @ ''  value: 91.0'' @ newline
      else if v = PList [result_record ''a/gsm8k'' 90]
      then ''- dataset:'' @ newline @ ''    id: a/gsm8k'' @ newline @ ''  value: 90.0'' @ newline
      else if v = PList [result_record ''b/GSM8K'' 95]
      then ''- dataset:'' @ newline @ ''    id: b/GSM8K'' @ newline @ ''  value: 95.0'' @ newline
      else [])"

definition empty_hub :: env where
  "empty_hub =
     \<lparr>resp_list_repo_files = (\<lambda>repo_id repo_type revision. Inr []),
      resp_hf_hub_download =
        (\<lambda>repo_id filename repo_type revision. Inl (HfHubHTTPError 404 ''Not Found'')),
      resp_read_yaml = (\<lambda>path. Inl (OSError ''FileNotFoundError'')),
      resp_read_file = (\<lambda>path. Inl (OSError ''FileNotFoundError'')),
      resp_get_repo_discussions = (\<lambda>repo_id repo_type. Inr []),
      resp_create_commit =
        (\<lambda>repo_id ops commit_message commit_description repo_type.
           Inr (''https://huggingface.co/'' @ repo_id @ ''/discussions/1'')),
      yaml_dump = example_dump,
      os_error = (\<lambda>cs c. None)\<rparr>"


text \<open>
  A Hub with one model repository, \<^verbatim>\<open>acme/model-x\<close>. Its main branch holds a README and a
  published result for \<^verbatim>\<open>cais/hle\<close> (40). Pull requests 7 and 9 are open, 10 is closed
  and 8 is a discussion; 7 proposes \<^verbatim>\<open>cais/hle\<close> (42) and \<^verbatim>\<open>openai/gsm8k\<close> (91), 9
  proposes \<^verbatim>\<open>openai/gsm8k\<close> (93).
\<close>

definition acme_discussions :: "discussion list" where
  "acme_discussions =
     [\<lparr>num = 7, is_pull_request = True, status = ''open''\<rparr>,
      \<lparr>num = 8, is_pull_request = False, status = ''open''\<rparr>,
      \<lparr>num = 9, is_pull_request = True, status = ''open''\<rparr>,
      \<lparr>num = 10, is_pull_request = True, status = ''closed''\<rparr>]"

definition acme_files :: "revision \<Rightarrow> string list" where
  "acme_files revision =
     (if revision = DefaultRevision then [''README.md'', ''.eval_results/hle.yaml'', ''config.json'']
      else if revision = RefsPr 7
      then [''README.md'', ''.eval_results/hle.yaml'', ''.eval_results/gsm8k.yaml'']
      else if revision = RefsPr 9 then [''README.md'', ''.eval_results/gsm8k.yaml'']
      else [''README.md''])"

definition acme_cache_path :: "string \<Rightarrow> revision \<Rightarrow> string" where
  "acme_cache_path filename revision =
     (if revision = DefaultRevision then ''cache/main/'' @ filename
      else if revision = RefsPr 7 then ''cache/pr7/'' @ filename
      else if revision = RefsPr 9 then ''cache/pr9/'' @ filename
      else ''cache/other/'' @ filename)"

definition acme_yaml :: "string \<Rightarrow> exn + pyval" where
  "acme_yaml path =
     (if path = ''cache/main/.eval_results/hle.yaml'' then Inr (PList [result_record ''cais/hle'' 40])
      else if path = ''cache/pr7/.eval_results/hle.yaml''
      then Inr (PList [result_record ''cais/hle'' 42])
      else if path = ''cache/pr7/.eval_results/gsm8k.yaml''
      then Inr (PList [result_record ''openai/gsm8k'' 91])
      else if path = ''cache/pr9/.eval_results/gsm8k.yaml''
      then Inr (PList [result_record ''openai/gsm8k'' 93])
      else Inl (Exception ''ScannerError''))"

definition acme_hub :: env where
  "acme_hub =
     \<lparr>resp_list_repo_files = (\<lambda>repo_id repo_type revision. Inr (acme_files revision)),
      resp_hf_hub_download =
        (\<lambda>repo_id filename repo_type revision. Inr (acme_cache_path filename revision)),
      resp_read_yaml = acme_yaml,
      resp_read_file = (\<lambda>path. Inr ''# Model X''),
      resp_get_repo_discussions = (\<lambda>repo_id repo_type. Inr acme_discussions),
      resp_create_commit =
        (\<lambda>repo_id ops commit_message commit_description repo_type.
           Inr (''https://huggingface.co/'' @ repo_id @ ''/discussions/11'')),
      yaml_dump = example_dump,
      os_error = (\<lambda>cs c. None)\<rparr>"

text \<open>The empty Hub on a machine whose file system refuses every operation.\<close>

definition readonly_disk_hub :: env where
  "readonly_disk_hub = empty_hub\<lparr>os_error := (\<lambda>cs c. Some ''PermissionError'')\<rparr>"


definition pr7 :: discussion where
  "pr7 = \<lparr>num = 7, is_pull_request = True, status = ''open''\<rparr>"

definition pr9 :: discussion where
  "pr9 = \<lparr>num = 9, is_pull_request = True, status = ''open''\<rparr>"





section \<open>Notions used to state and prove the properties of the index\<close>

text \<open>
  The index of the main branch alone, the index of one pull request alone (what scanning
  only that pull request builds from an empty index), and the open pull requests in the
  order in which the Hub enumerates them (none when the enumeration fails).
\<close>

definition main_index :: "env \<Rightarrow> string \<Rightarrow> string \<Rightarrow> index" where
  "main_index env repo_id repo_type =
     existing_results (snd (scan_main env repo_id repo_type initial_state))"

definition pr_index :: "env \<Rightarrow> string \<Rightarrow> string \<Rightarrow> discussion \<Rightarrow> index" where
  "pr_index env repo_id repo_type pr =
     existing_results (snd (scan_pr env repo_id repo_type pr initial_state))"

definition enumerated_prs :: "env \<Rightarrow> string \<Rightarrow> string \<Rightarrow> discussion list" where
  "enumerated_prs env repo_id repo_type =
     (case resp_get_repo_discussions env repo_id repo_type of
        Inl e \<Rightarrow> [] | Inr discussions \<Rightarrow> open_prs_of discussions)"

text \<open>
  For the proofs: the findings \<open>fs\<close> added to an index by the rule of line 123 (a key
  that is present is left alone), a computation whose outcome \<open>r\<close> and whose effect
  \<open>T\<close> on the index are the same in every state, findings that carry the number of a
  pull request, and indexes that hold published entries only.
\<close>

fun merge_new :: "index \<Rightarrow> (hkey \<times> info) list \<Rightarrow> index" where
  "merge_new idx [] = idx"
| "merge_new idx ((k, i) # fs) =
     merge_new (if map_of idx k = None then dict_set k i idx else idx) fs"

definition transforms :: "'a io \<Rightarrow> exn + 'a \<Rightarrow> (index \<Rightarrow> index) \<Rightarrow> bool" where
  "transforms m r T = (\<forall>s. \<exists>s'. m s = (r, s') \<and> existing_results s' = T (existing_results s))"

definition tagged_pr :: "discussion \<Rightarrow> (hkey \<times> info) list \<Rightarrow> bool" where
  "tagged_pr pr F = (\<forall>(k, i) \<in> set F. source i = ''pr'' \<and> pr_num i = Some (num pr))"

definition all_main :: "index \<Rightarrow> bool" where
  "all_main idx = (\<forall>(k, i) \<in> set idx. source i = ''main'' \<and> pr_num i = None)"

definition keeps_main :: "(index \<Rightarrow> index) \<Rightarrow> bool" where
  "keeps_main T = (\<forall>idx. all_main idx \<longrightarrow> all_main (T idx))"

section \<open>Properties of the file names\<close>

lemma py_split_nonempty: "py_split sep s \<noteq> []"
  by (induction s) (auto split: list.splits)

lemma py_split_no_sep: "sep \<notin> set s \<Longrightarrow> py_split sep s = [s]"
  by (induction s) auto

lemma py_split_single: "py_split sep s = [w] \<Longrightarrow> sep \<notin> set s"
  by (induction s arbitrary: w) (auto simp: py_split_nonempty split: if_splits list.splits)

lemma last_py_split_append:
  "sep \<notin> set suf \<Longrightarrow> last (py_split sep (pre @ sep # suf)) = suf"
  by (induction pre) (auto simp: py_split_no_sep py_split_nonempty split: list.splits
        dest: py_split_single)

lemma last_py_split: "last (py_split (CHR ''/'') s) = after_last_separator s"
proof (cases "CHR ''/'' \<in> set s")
  case False
  then have tw: "takeWhile (\<lambda>c. c \<noteq> CHR ''/'') (rev s) = rev s"
    by auto
  show ?thesis
    unfolding after_last_separator_def tw using False by (simp add: py_split_no_sep)
next
  case True
  then have "CHR ''/'' \<in> set (rev s)" by simp
  then obtain ys zs where rs: "rev s = ys @ CHR ''/'' # zs" and ys: "CHR ''/'' \<notin> set ys"
    by (meson split_list_first)
  then have s: "s = rev zs @ CHR ''/'' # rev ys"
    by (metis rev_append rev.simps(2) rev_rev_ident append.assoc append_Cons append_Nil)
  have "takeWhile (\<lambda>c. c \<noteq> CHR ''/'') (ys @ CHR ''/'' # zs) = ys"
    using ys by (induction ys) auto
  then have "after_last_separator s = rev ys"
    unfolding after_last_separator_def rs by simp
  moreover have "last (py_split (CHR ''/'') s) = rev ys"
    unfolding s using ys by (intro last_py_split_append) simp
  ultimately show ?thesis by simp
qed

lemma filenames_stem:
  "local_filename i = spec_stem i @ ''.yaml''"
  "staging_filename i = spec_stem i @ ''.yaml''"
  by (simp_all add: local_filename_def staging_filename_def local_dataset_name_def
        staging_dataset_name_def spec_stem_def last_py_split)

lemma writers_write_stem:
  assumes "entry result ''dataset'' = Some dataset" and "entry dataset ''id'' = Some (PStr i)"
    and "i \<noteq> []"
  shows "calls (snd (write_result env dir result s)) =
      calls s @ [WriteFile (path_join dir (spec_stem i @ ''.yaml'')) (yaml_dump env (PList [result]))] \<and>
    calls (snd (stage_result env dir result s)) =
      calls s @ [WriteFile (path_join dir (spec_stem i @ ''.yaml'')) (yaml_dump env (PList [result]))]"
proof -
  from assms(1) obtain kvs where r: "result = PDict kvs" by (cases result) simp_all
  from assms(2) obtain d where d: "dataset = PDict d" by (cases dataset) simp_all
  from assms r d have "calls (snd (write_result env dir result s)) =
      calls s @ [WriteFile (path_join dir (spec_stem i @ ''.yaml'')) (yaml_dump env (PList [result]))]"
    by (simp add: write_result_def io_bind_def io_lift_def io_modify_def record_call_def
          write_file_def os_call_def Let_def filenames_stem split: option.splits)
  moreover from assms r d have "calls (snd (stage_result env dir result s)) =
      calls s @ [WriteFile (path_join dir (spec_stem i @ ''.yaml'')) (yaml_dump env (PList [result]))]"
    by (simp add: stage_result_def io_bind_def io_lift_def io_modify_def record_call_def
          write_file_def os_call_def Let_def filenames_stem split: option.splits)
  ultimately show ?thesis by simp
qed

text \<open>
  C3. The stem of the artifact file name is a function of the dataset id alone: the part
  of the id after its last \<^verbatim>\<open>/\<close>, lowercased, followed by \<^verbatim>\<open>.yaml\<close>, and the local
  writer and the staging writer compute the same name. \<^verbatim>\<open>Idavidrein/gpqa\<close> gives
  \<^verbatim>\<open>gpqa\<close> whatever the case of its letters, \<^verbatim>\<open>openai/gsm8k\<close> gives \<^verbatim>\<open>gsm8k\<close>.
  For a record whose \<^verbatim>\<open>dataset.id\<close> is a non-empty string, both writers write the
  one-element sequence holding the record to the file of that name in their directory.
\<close>

theorem artifact_filename_stem:
  "local_filename dataset_id = spec_stem dataset_id @ ''.yaml'' \<and>
   staging_filename dataset_id = spec_stem dataset_id @ ''.yaml'' \<and>
   local_dataset_name dataset_id = spec_stem dataset_id \<and>
   staging_dataset_name dataset_id = spec_stem dataset_id \<and>
   local_dataset_name ''Idavidrein/gpqa'' = ''gpqa'' \<and>
   staging_dataset_name ''Idavidrein/gpqa'' = ''gpqa'' \<and>
   local_dataset_name ''Idavidrein/GPQA'' = ''gpqa'' \<and>
   staging_dataset_name ''Idavidrein/GPQA'' = ''gpqa'' \<and>
   local_dataset_name ''openai/gsm8k'' = ''gsm8k'' \<and>
   staging_dataset_name ''openai/gsm8k'' = ''gsm8k'' \<and>
   (\<forall>dataset.
      entry result ''dataset'' = Some dataset \<and> entry dataset ''id'' = Some (PStr dataset_id) \<and>
      dataset_id \<noteq> [] \<longrightarrow>
      calls (snd (write_result env dir result s)) =
        calls s @ [WriteFile (path_join dir (spec_stem dataset_id @ ''.yaml''))
                     (yaml_dump env (PList [result]))] \<and>
      calls (snd (stage_result env dir result s)) =
        calls s @ [WriteFile (path_join dir (spec_stem dataset_id @ ''.yaml''))
                     (yaml_dump env (PList [result]))])"
proof -
  have "local_dataset_name dataset_id = spec_stem dataset_id \<and>
      staging_dataset_name dataset_id = spec_stem dataset_id"
    by (simp add: local_dataset_name_def staging_dataset_name_def spec_stem_def last_py_split)
  moreover have "local_dataset_name ''Idavidrein/gpqa'' = ''gpqa'' \<and>
      staging_dataset_name ''Idavidrein/gpqa'' = ''gpqa'' \<and>
      local_dataset_name ''Idavidrein/GPQA'' = ''gpqa'' \<and>
      staging_dataset_name ''Idavidrein/GPQA'' = ''gpqa'' \<and>
      local_dataset_name ''openai/gsm8k'' = ''gsm8k'' \<and>
      staging_dataset_name ''openai/gsm8k'' = ''gsm8k''"
    by (simp add: local_dataset_name_def staging_dataset_name_def py_lower_def lower_char_def)
  ultimately show ?thesis
    using filenames_stem [of dataset_id] writers_write_stem [of result _ dataset_id env dir s]
    by blast
qed

theorem artifact_filename_stem_witness:
  "entry hle_record ''dataset'' = Some (PDict [(KStr ''id'', PStr ''cais/hle'')]) \<and>
   entry (PDict [(KStr ''id'', PStr ''cais/hle'')]) ''id'' = Some (PStr ''cais/hle'') \<and>
   calls (snd (write_result empty_hub ''outputs/acme__model-x'' hle_record initial_state)) =
     [WriteFile ''outputs/acme__model-x/hle.yaml'' (example_dump (PList [hle_record]))] \<and>
   calls (snd (stage_result empty_hub ''outputs/temp_acme_model-x'' hle_record initial_state)) =
     [WriteFile ''outputs/temp_acme_model-x/hle.yaml'' (example_dump (PList [hle_record]))]"
proof -
  have a: "entry hle_record ''dataset'' = Some (PDict [(KStr ''id'', PStr ''cais/hle'')])"
    by (simp add: hle_record_def)
  have b: "entry (PDict [(KStr ''id'', PStr ''cais/hle'')]) ''id'' = Some (PStr ''cais/hle'')"
    by simp
  have c: "''cais/hle'' \<noteq> []" by simp
  have d: "spec_stem ''cais/hle'' = ''hle''"
    by (simp add: spec_stem_def after_last_separator_def py_lower_def lower_char_def)
  have e: "yaml_dump empty_hub = example_dump" "calls initial_state = []"
    by (simp_all add: empty_hub_def initial_state_def)
  show ?thesis
    using a b c
      artifact_filename_stem [of "''cais/hle''" hle_record empty_hub "''outputs/acme__model-x''"
        initial_state]
      artifact_filename_stem [of "''cais/hle''" hle_record empty_hub
        "''outputs/temp_acme_model-x''" initial_state]
    by (simp add: d e path_join_def)
qed

section \<open>Properties of the dedup filter\<close>

lemma py_in_fst:
  "py_in i E = (case hash_key i of Inl e \<Rightarrow> Inl e | Inr k \<Rightarrow> Inr (k \<in> fst ` set E))"
  by (simp add: py_in_def bind_exn_def map_of_eq_None_iff split: sum.splits)

lemma is_new_well_shaped:
  "well_shaped r \<Longrightarrow> is_new E r = Inr (\<not> is_key_of (record_dataset_id r) E)"
proof (cases r)
  case (PDict kvs)
  assume ws: "well_shaped r"
  show ?thesis
  proof (cases "map_of kvs (KStr ''dataset'')")
    case None
    with PDict show ?thesis
      by (simp add: is_new_def bind_exn_def record_dataset_id_def py_in_fst is_key_of_def)
  next
    case (Some d)
    with ws PDict obtain dkvs where d: "d = PDict dkvs"
      by (cases d) (simp_all add: well_shaped_def)
    show ?thesis
    proof (cases "map_of dkvs (KStr ''id'')")
      case None
      with PDict Some d show ?thesis
        by (simp add: is_new_def bind_exn_def record_dataset_id_def py_in_fst is_key_of_def)
    next
      case (Some i)
      with ws PDict \<open>map_of kvs (KStr ''dataset'') = Some d\<close> d have "is_scalar i"
        by (simp add: well_shaped_def)
      then have "py_in i E = Inr (is_key_of i E)"
        by (cases i) (simp_all add: py_in_fst is_key_of_def)
      with PDict Some d \<open>map_of kvs (KStr ''dataset'') = Some d\<close> show ?thesis
        by (simp add: is_new_def bind_exn_def record_dataset_id_def)
    qed
  qed
qed (simp_all add: well_shaped_def)

lemma filter_existing_filter:
  "\<forall>r \<in> set C. well_shaped r \<Longrightarrow>
   filter_existing C E = Inr (filter (\<lambda>r. \<not> is_key_of (record_dataset_id r) E) C)"
  by (induction C) (simp_all add: is_new_well_shaped bind_exn_def)

text \<open>
  C1. For every list \<open>C\<close> of candidate records and every index \<open>E\<close>, the dedup filter
  of the submission routine returns (it does not raise) exactly the records of \<open>C\<close>
  whose \<^verbatim>\<open>dataset.id\<close> is not a key of \<open>E\<close>, in the order of \<open>C\<close>: the result is a
  subsequence of \<open>C\<close>, none of its records has an id that is a key of \<open>E\<close>, and every
  record of \<open>C\<close> whose id is not a key of \<open>E\<close> is in it. Only \<^verbatim>\<open>dataset.id\<close> is
  looked at.
\<close>

theorem filter_existing_exact:
  assumes "\<forall>r \<in> set C. well_shaped r"
  shows "\<exists>R. filter_existing C E = Inr R \<and>
     R = filter (\<lambda>r. \<not> is_key_of (record_dataset_id r) E) C \<and>
     subseq R C \<and>
     (\<forall>r \<in> set R. \<not> is_key_of (record_dataset_id r) E) \<and>
     (\<forall>r \<in> set C. \<not> is_key_of (record_dataset_id r) E \<longrightarrow> r \<in> set R)"
  using filter_existing_filter [OF assms, of E] by simp

theorem filter_existing_exact_witness:
  "well_shaped hle_record \<and> well_shaped gsm8k_record \<and>
   filter_existing [hle_record, gsm8k_record] hle_published = Inr [gsm8k_record]"
proof -
  have h: "\<forall>r \<in> set [hle_record, gsm8k_record]. well_shaped r"
    by (simp add: well_shaped_def hle_record_def gsm8k_record_def)
  have "is_key_of (record_dataset_id hle_record) hle_published"
    by (simp add: is_key_of_def record_dataset_id_def hle_record_def hle_published_def)
  moreover have "\<not> is_key_of (record_dataset_id gsm8k_record) hle_published"
    by (simp add: is_key_of_def record_dataset_id_def gsm8k_record_def hle_published_def)
  ultimately show ?thesis
    using h filter_existing_exact [OF h, of hle_published] by simp
qed

section \<open>Empty inputs\<close>

lemmas io_defs = io_bind_def io_return_def io_raise_def io_lift_def io_get_def io_modify_def
  try_except_def try_except_OSError_pass_def try_finally_def print_def record_call_def

text \<open>
  C8. With an empty list of candidates (or none at all) \<^verbatim>\<open>create_eval_results_pr\<close>
  returns \<^verbatim>\<open>None\<close> at once: it prints one line and does nothing else, so no call of
  any kind is made, whatever \<^verbatim>\<open>skip_existing\<close> is.
\<close>

theorem create_eval_results_pr_empty:
  "create_eval_results_pr env repo_id (Some []) repo_type skip_existing s =
     (Inr None,
      s\<lparr>out := out s @ [[FStr ''No evaluation results to submit for '', FStr repo_id]]\<rparr>) \<and>
   create_eval_results_pr env repo_id None repo_type skip_existing s =
     (Inr None,
      s\<lparr>out := out s @ [[FStr ''No evaluation results to submit for '', FStr repo_id]]\<rparr>) \<and>
   calls (snd (create_eval_results_pr env repo_id (Some []) repo_type skip_existing s)) = calls s \<and>
   calls (snd (create_eval_results_pr env repo_id None repo_type skip_existing s)) = calls s"
  by (simp add: create_eval_results_pr_def get_evaluation_results_def io_defs Let_def)

text \<open>
  C9. With an empty result set \<^verbatim>\<open>write_output\<close> writes no file. Once the output folder
  is there (its creation is the first statement of the function), it prints
  \<^verbatim>\<open>No evaluation results to write for <repo_id>\<close> and returns; when the folder cannot
  be created the error of \<^verbatim>\<open>mkdir\<close> leaves the function before anything is printed.
\<close>

theorem write_output_empty:
  assumes "get_evaluation_results evaluation_results = []"
  shows "files (snd (write_output env repo_id evaluation_results s)) = files s \<and>
    filter is_write (calls (snd (write_output env repo_id evaluation_results s))) =
      filter is_write (calls s) \<and>
    (os_error env (calls s) (Makedirs (output_folder_of repo_id)) = None \<longrightarrow>
       write_output env repo_id evaluation_results s =
         (Inr (), s\<lparr>calls := calls s @ [Makedirs (output_folder_of repo_id)],
                    out := out s @ [[FStr (newline @ ''No evaluation results to write for ''),
                                     FStr repo_id]]\<rparr>)) \<and>
    (\<forall>m. os_error env (calls s) (Makedirs (output_folder_of repo_id)) = Some m \<longrightarrow>
       write_output env repo_id evaluation_results s =
         (Inl (OSError m), s\<lparr>calls := calls s @ [Makedirs (output_folder_of repo_id)]\<rparr>))"
  using assms
  by (simp add: write_output_def os_makedirs_def os_call_def io_defs Let_def split: option.splits)

theorem write_output_empty_witness:
  "get_evaluation_results (Some []) = [] \<and>
   os_error empty_hub (calls initial_state) (Makedirs (output_folder_of ''acme/model-x'')) = None \<and>
   write_output empty_hub ''acme/model-x'' (Some []) initial_state =
     (Inr (), initial_state\<lparr>calls := [Makedirs ''outputs/acme__model-x''],
        out := [[FStr (newline @ ''No evaluation results to write for ''),
                 FStr ''acme/model-x'']]\<rparr>) \<and>
   os_error readonly_disk_hub (calls initial_state) (Makedirs (output_folder_of ''acme/model-x''))
     = Some ''PermissionError'' \<and>
   write_output readonly_disk_hub ''acme/model-x'' (Some []) initial_state =
     (Inl (OSError ''PermissionError''),
      initial_state\<lparr>calls := [Makedirs ''outputs/acme__model-x'']\<rparr>)"
proof -
  have h: "get_evaluation_results (Some []) = []"
    by (simp add: get_evaluation_results_def)
  have e: "os_error empty_hub (calls initial_state)
      (Makedirs (output_folder_of ''acme/model-x'')) = None"
    by (simp add: empty_hub_def)
  have r: "os_error readonly_disk_hub (calls initial_state)
      (Makedirs (output_folder_of ''acme/model-x'')) = Some ''PermissionError''"
    by (simp add: readonly_disk_hub_def)
  have f: "output_folder_of ''acme/model-x'' = ''outputs/acme__model-x''"
    by (simp add: output_folder_of_def path_join_def OUTPUTS_DIR_def py_replace_def)
  show ?thesis
    using h e r
      write_output_empty [OF h, of empty_hub "''acme/model-x''" initial_state]
      write_output_empty [OF h, of readonly_disk_hub "''acme/model-x''" initial_state]
    by (simp add: f initial_state_def)
qed

section \<open>Outcomes of the document fetcher\<close>




section \<open>The index builder never raises\<close>








section \<open>Cleanup of the staging area\<close>











text \<open>Evaluation of the program on the example inputs.\<close>

lemmas run_defs =
  create_eval_results_pr_def staging_statement_def stage_and_submit_def cleanup_def
  submit_operations_def stage_result_def skip_existing_results_def print_existing_def
  get_existing_eval_results_def scan_main_def scan_prs_def scan_pr_def read_main_file_def
  read_pr_file_def record_main_result_def record_pr_result_def setitem_existing_results_def
  open_prs_of_def is_eval_file_def startswith_def endswith_def
  list_repo_files_def hf_hub_download_def get_repo_discussions_def create_commit_def
  read_yaml_def read_file_def os_call_def os_makedirs_def write_file_def os_remove_def
  os_rmdir_def get_evaluation_results_def temp_dir_def sanitized_repo_id_def py_replace_def
  path_join_def OUTPUTS_DIR_def staging_filename_def staging_dataset_name_def py_lower_def
  py_upper_def lower_char_def upper_char_def bind_exn_def py_in_def py_setitem_def
  is_new_def Let_def io_defs


section \<open>Colliding file names\<close>

lemmas write_defs = write_output_def write_result_def output_folder_of_def local_filename_def
  local_dataset_name_def path_name_def

text \<open>
  C10. The file name is not injective on dataset ids. \<^verbatim>\<open>a/gsm8k\<close> and \<^verbatim>\<open>b/GSM8K\<close>
  are distinct ids with the same file name \<^verbatim>\<open>gsm8k.yaml\<close> in both writers. Given the
  two records, \<^verbatim>\<open>write_output\<close> writes the same path twice and the file is left with
  the second record; \<^verbatim>\<open>create_eval_results_pr\<close> submits one commit whose two add-file
  operations have the same path in the repository.
\<close>

theorem artifact_filename_collision:
  "''a/gsm8k'' \<noteq> ''b/GSM8K'' \<and>
   local_filename ''a/gsm8k'' = ''gsm8k.yaml'' \<and>
   local_filename ''b/GSM8K'' = ''gsm8k.yaml'' \<and>
   staging_filename ''a/gsm8k'' = ''gsm8k.yaml'' \<and>
   staging_filename ''b/GSM8K'' = ''gsm8k.yaml'' \<and>
   filter is_write
     (calls (snd (write_output empty_hub ''acme/model-x''
        (Some [result_record ''a/gsm8k'' 90, result_record ''b/GSM8K'' 95]) initial_state))) =
     [WriteFile ''outputs/acme__model-x/gsm8k.yaml''
        (example_dump (PList [result_record ''a/gsm8k'' 90])),
      WriteFile ''outputs/acme__model-x/gsm8k.yaml''
        (example_dump (PList [result_record ''b/GSM8K'' 95]))] \<and>
   dom (files (snd (write_output empty_hub ''acme/model-x''
        (Some [result_record ''a/gsm8k'' 90, result_record ''b/GSM8K'' 95]) initial_state))) =
     {''outputs/acme__model-x/gsm8k.yaml''} \<and>
   files (snd (write_output empty_hub ''acme/model-x''
        (Some [result_record ''a/gsm8k'' 90, result_record ''b/GSM8K'' 95]) initial_state))
     ''outputs/acme__model-x/gsm8k.yaml'' =
     Some (example_dump (PList [result_record ''b/GSM8K'' 95])) \<and>
   example_dump (PList [result_record ''a/gsm8k'' 90]) \<noteq>
     example_dump (PList [result_record ''b/GSM8K'' 95]) \<and>
   filter is_remote
     (calls (snd (create_eval_results_pr empty_hub ''acme/model-x''
        (Some [result_record ''a/gsm8k'' 90, result_record ''b/GSM8K'' 95]) ''model'' True
        initial_state))) =
     [ListRepoFiles ''acme/model-x'' ''model'' DefaultRevision,
      GetRepoDiscussions ''acme/model-x'' ''model'',
      CreateCommit ''acme/model-x''
        [\<lparr>path_in_repo = ''.eval_results/gsm8k.yaml'',
          path_or_fileobj = ''outputs/temp_acme_model-x/gsm8k.yaml''\<rparr>,
         \<lparr>path_in_repo = ''.eval_results/gsm8k.yaml'',
          path_or_fileobj = ''outputs/temp_acme_model-x/gsm8k.yaml''\<rparr>]
        (pr_title [''GSM8K'', ''GSM8K''])
        (pr_description [''GSM8K'', ''GSM8K''] [''a/gsm8k'', ''b/GSM8K''])
        ''model'']"
proof -
  have 1: "local_filename ''a/gsm8k'' = ''gsm8k.yaml'' \<and> local_filename ''b/GSM8K'' = ''gsm8k.yaml'' \<and>
     staging_filename ''a/gsm8k'' = ''gsm8k.yaml'' \<and> staging_filename ''b/GSM8K'' = ''gsm8k.yaml''"
    by (simp add: write_defs run_defs)
  have 2: "filter is_write
     (calls (snd (write_output empty_hub ''acme/model-x''
        (Some [result_record ''a/gsm8k'' 90, result_record ''b/GSM8K'' 95]) initial_state))) =
     [WriteFile ''outputs/acme__model-x/gsm8k.yaml''
        (example_dump (PList [result_record ''a/gsm8k'' 90])),
      WriteFile ''outputs/acme__model-x/gsm8k.yaml''
        (example_dump (PList [result_record ''b/GSM8K'' 95]))]"
    by (simp add: write_defs run_defs empty_hub_def initial_state_def result_record_def)
  have 3: "dom (files (snd (write_output empty_hub ''acme/model-x''
        (Some [result_record ''a/gsm8k'' 90, result_record ''b/GSM8K'' 95]) initial_state))) =
     {''outputs/acme__model-x/gsm8k.yaml''}"
    by (simp add: write_defs run_defs empty_hub_def initial_state_def result_record_def)
  have 4: "files (snd (write_output empty_hub ''acme/model-x''
        (Some [result_record ''a/gsm8k'' 90, result_record ''b/GSM8K'' 95]) initial_state))
     ''outputs/acme__model-x/gsm8k.yaml'' =
     Some (example_dump (PList [result_record ''b/GSM8K'' 95]))"
    by (simp add: write_defs run_defs empty_hub_def initial_state_def result_record_def)
  have 5: "example_dump (PList [result_record ''a/gsm8k'' 90]) \<noteq>
     example_dump (PList [result_record ''b/GSM8K'' 95])"
    by (simp add: example_dump_def result_record_def hle_record_def gsm8k_record_def newline_def)
  have 6: "filter is_remote
     (calls (snd (create_eval_results_pr empty_hub ''acme/model-x''
        (Some [result_record ''a/gsm8k'' 90, result_record ''b/GSM8K'' 95]) ''model'' True
        initial_state))) =
     [ListRepoFiles ''acme/model-x'' ''model'' DefaultRevision,
      GetRepoDiscussions ''acme/model-x'' ''model'',
      CreateCommit ''acme/model-x''
        [\<lparr>path_in_repo = ''.eval_results/gsm8k.yaml'',
          path_or_fileobj = ''outputs/temp_acme_model-x/gsm8k.yaml''\<rparr>,
         \<lparr>path_in_repo = ''.eval_results/gsm8k.yaml'',
          path_or_fileobj = ''outputs/temp_acme_model-x/gsm8k.yaml''\<rparr>]
        (pr_title [''GSM8K'', ''GSM8K''])
        (pr_description [''GSM8K'', ''GSM8K''] [''a/gsm8k'', ''b/GSM8K''])
        ''model'']"
    by (simp add: run_defs empty_hub_def initial_state_def result_record_def)
  from 1 2 3 4 5 6 show ?thesis by simp
qed

section \<open>Precedence in the index\<close>

lemma map_of_dict_set: "map_of (dict_set k v d) k' = (if k' = k then Some v else map_of d k')"
  by (induction d) auto

lemma map_of_merge_new:
  "map_of (merge_new idx fs) k = (case map_of idx k of Some e \<Rightarrow> Some e | None \<Rightarrow> map_of fs k)"
  by (induction fs arbitrary: idx) (auto simp: map_of_dict_set split: option.splits)

lemma merge_new_append: "merge_new idx (fs @ gs) = merge_new (merge_new idx fs) gs"
  by (induction fs arbitrary: idx) auto

lemma set_dict_set: "(k', v') \<in> set (dict_set k v d) \<Longrightarrow> v' = v \<or> (k', v') \<in> set d"
  by (induction d) (auto split: if_splits)

lemma transformsI:
  "(\<And>s. \<exists>s'. m s = (r, s') \<and> existing_results s' = T (existing_results s)) \<Longrightarrow> transforms m r T"
  by (simp add: transforms_def)

lemma transformsD:
  "transforms m r T \<Longrightarrow> \<exists>s'. m s = (r, s') \<and> existing_results s' = T (existing_results s)"
  by (simp add: transforms_def)

lemma transforms_return: "transforms (io_return x) (Inr x) (\<lambda>idx. idx)"
  by (simp add: transforms_def io_return_def)

lemma transforms_lift: "transforms (io_lift r) r (\<lambda>idx. idx)"
  by (simp add: transforms_def io_lift_def)

lemma transforms_print: "transforms (print l) (Inr ()) (\<lambda>idx. idx)"
  by (simp add: transforms_def print_def io_modify_def)

lemma transforms_bind:
  assumes "transforms m (Inr x) T" and "transforms (f x) r U"
  shows "transforms (io_bind m f) r (\<lambda>idx. U (T idx))"
proof (rule transformsI)
  fix s
  obtain s1 where 1: "m s = (Inr x, s1)" "existing_results s1 = T (existing_results s)"
    using transformsD [OF assms(1)] by blast
  obtain s2 where 2: "f x s1 = (r, s2)" "existing_results s2 = U (existing_results s1)"
    using transformsD [OF assms(2)] by blast
  show "\<exists>s'. io_bind m f s = (r, s') \<and> existing_results s' = U (T (existing_results s))"
    using 1 2 by (simp add: io_bind_def)
qed

lemma transforms_bind_raise:
  assumes "transforms m (Inl e) T"
  shows "transforms (io_bind m f) (Inl e) T"
proof (rule transformsI)
  fix s
  obtain s1 where 1: "m s = (Inl e, s1)" "existing_results s1 = T (existing_results s)"
    using transformsD [OF assms] by blast
  show "\<exists>s'. io_bind m f s = (Inl e, s') \<and> existing_results s' = T (existing_results s)"
    using 1 by (simp add: io_bind_def)
qed

lemma transforms_try_print:
  assumes "transforms m r T"
  shows "transforms (try_except m (\<lambda>e. print (l e))) (Inr ()) T"
proof (rule transformsI)
  fix s
  obtain s1 where 1: "m s = (r, s1)" "existing_results s1 = T (existing_results s)"
    using transformsD [OF assms] by blast
  show "\<exists>s'. try_except m (\<lambda>e. print (l e)) s = (Inr (), s') \<and>
      existing_results s' = T (existing_results s)"
    using 1 by (cases r) (simp_all add: try_except_def print_def io_modify_def)
qed

text \<open>A loop whose body may raise: the transformer of the loop is in any class of
  transformers that holds the identity and is closed under composition.\<close>

lemma transforms_for_each:
  assumes body: "\<And>x. \<exists>r T. transforms (f x) r T \<and> Q T"
    and ident: "Q (\<lambda>idx. idx)"
    and comp: "\<And>T U. Q T \<Longrightarrow> Q U \<Longrightarrow> Q (\<lambda>idx. U (T idx))"
  shows "\<exists>r T. transforms (for_each f xs) r T \<and> Q T"
proof (induction xs)
  case Nil
  show ?case using transforms_return [of "()"] ident by auto
next
  case (Cons x xs)
  obtain r1 T1 where 1: "transforms (f x) r1 T1" "Q T1" using body by blast
  obtain r2 T2 where 2: "transforms (for_each f xs) r2 T2" "Q T2" using Cons.IH by blast
  show ?case
  proof (cases r1)
    case (Inl e)
    with 1 have "transforms (for_each f (x # xs)) (Inl e) T1"
      by (simp add: transforms_bind_raise)
    with 1 show ?thesis by blast
  next
    case (Inr u)
    with 1 2 have "transforms (for_each f (x # xs)) r2 (\<lambda>idx. T2 (T1 idx))"
      by (simp add: transforms_bind)
    with comp [OF 1(2) 2(2)] show ?thesis by blast
  qed
qed

text \<open>A loop whose body always returns.\<close>

lemma transforms_for_each_total:
  assumes "\<And>x. transforms (f x) (Inr ()) (\<lambda>idx. merge_new idx (F x))"
  shows "transforms (for_each f xs) (Inr ()) (\<lambda>idx. merge_new idx (concat (map F xs)))"
proof (induction xs)
  case Nil
  show ?case using transforms_return [of "()"] by simp
next
  case (Cons x xs)
  from transforms_bind [OF assms [of x], of "\<lambda>u. for_each f xs", OF Cons.IH]
  show ?case by (simp add: merge_new_append)
qed


lemma tagged_pr_Nil: "tagged_pr pr []"
  by (simp add: tagged_pr_def)

lemma tagged_pr_append: "tagged_pr pr F \<Longrightarrow> tagged_pr pr G \<Longrightarrow> tagged_pr pr (F @ G)"
  by (auto simp: tagged_pr_def)

lemma tagged_pr_concat: "(\<And>x. tagged_pr pr (F x)) \<Longrightarrow> tagged_pr pr (concat (map F xs))"
  by (induction xs) (simp_all add: tagged_pr_Nil tagged_pr_append)

lemma record_pr_result_transforms:
  "\<exists>r F. transforms (record_pr_result pr eval_file result) r (\<lambda>idx. merge_new idx F) \<and>
         tagged_pr pr F"
proof (cases result)
  case (PDict kvs)
  define dataset where
    "dataset = (case map_of kvs (KStr ''dataset'') of Some v \<Rightarrow> v | None \<Rightarrow> PDict [])"
  define v where "v = (case map_of kvs (KStr ''value'') of Some v \<Rightarrow> v | None \<Rightarrow> PNone)"
  show ?thesis
  proof (cases "py_get dataset ''id'' PNone")
    case (Inl e)
    with PDict have "transforms (record_pr_result pr eval_file result) (Inl e) (\<lambda>idx. merge_new idx [])"
      by (simp add: transforms_def record_pr_result_def io_defs dataset_def)
    then show ?thesis using tagged_pr_Nil by blast
  next
    case (Inr dataset_id)
    note id = this
    show ?thesis
    proof (cases "truthy dataset_id")
      case False
      with PDict id have
        "transforms (record_pr_result pr eval_file result) (Inr ()) (\<lambda>idx. merge_new idx [])"
        by (simp add: transforms_def record_pr_result_def io_defs dataset_def)
      then show ?thesis using tagged_pr_Nil by blast
    next
      case True
      show ?thesis
      proof (cases "hash_key dataset_id")
        case (Inl e)
        with PDict id True have
          "transforms (record_pr_result pr eval_file result) (Inl e) (\<lambda>idx. merge_new idx [])"
          by (simp add: transforms_def record_pr_result_def io_defs dataset_def py_in_def
                bind_exn_def)
        then show ?thesis using tagged_pr_Nil by blast
      next
        case (Inr k)
        let ?i = "\<lparr>source = ''pr'', pr_num = Some (num pr), value = v, file_path = eval_file\<rparr>"
        from PDict id True Inr have
          "transforms (record_pr_result pr eval_file result) (Inr ())
             (\<lambda>idx. merge_new idx [(k, ?i)])"
          by (simp add: transforms_def record_pr_result_def io_defs dataset_def v_def py_in_def
                bind_exn_def setitem_existing_results_def py_setitem_def)
        moreover have "tagged_pr pr [(k, ?i)]" by (simp add: tagged_pr_def)
        ultimately show ?thesis by blast
      qed
    qed
  qed
qed (insert tagged_pr_Nil [of pr],
     auto simp: transforms_def record_pr_result_def io_defs intro!: exI [of _ "[]"])


lemma transforms_call:
  "transforms (hf_hub_download env repo_id filename repo_type revision)
     (resp_hf_hub_download env repo_id filename repo_type revision) (\<lambda>idx. idx)"
  "transforms (read_yaml env path) (resp_read_yaml env path) (\<lambda>idx. idx)"
  "transforms (list_repo_files env repo_id repo_type revision)
     (resp_list_repo_files env repo_id repo_type revision) (\<lambda>idx. idx)"
  "transforms (get_repo_discussions env repo_id repo_type)
     (resp_get_repo_discussions env repo_id repo_type) (\<lambda>idx. idx)"
  by (simp_all add: transforms_def hf_hub_download_def read_yaml_def list_repo_files_def
        get_repo_discussions_def record_call_def)

lemma pr_records_transforms:
  "\<exists>r F. transforms (for_each (record_pr_result pr eval_file) results) r
           (\<lambda>idx. merge_new idx F) \<and> tagged_pr pr F"
proof -
  let ?Q = "\<lambda>T. \<exists>F. T = (\<lambda>idx. merge_new idx F) \<and> tagged_pr pr F"
  have "\<exists>r T. transforms (for_each (record_pr_result pr eval_file) results) r T \<and> ?Q T"
  proof (rule transforms_for_each)
    fix x
    show "\<exists>r T. transforms (record_pr_result pr eval_file x) r T \<and> ?Q T"
      using record_pr_result_transforms [of pr eval_file x] by blast
  next
    show "?Q (\<lambda>idx. idx)"
      using tagged_pr_Nil [of pr] by (intro exI [of _ "[]"]) simp
  next
    fix T U
    assume "?Q T" and "?Q U"
    then obtain F G where "T = (\<lambda>idx. merge_new idx F)" "tagged_pr pr F"
      "U = (\<lambda>idx. merge_new idx G)" "tagged_pr pr G"
      by blast
    then show "?Q (\<lambda>idx. U (T idx))"
      by (intro exI [of _ "F @ G"]) (simp add: merge_new_append tagged_pr_append)
  qed
  then show ?thesis by blast
qed

lemma read_pr_file_transforms:
  "\<exists>F. transforms (read_pr_file env repo_id repo_type pr eval_file) (Inr ())
         (\<lambda>idx. merge_new idx F) \<and> tagged_pr pr F"
proof -
  let ?body = "io_bind (hf_hub_download env repo_id eval_file repo_type (RefsPr (num pr))) (\<lambda>path.
        io_bind (read_yaml env path) (\<lambda>content.
        if is_list content \<and> truthy content
        then for_each (record_pr_result pr eval_file) (list_items content)
        else io_return ()))"
  have "\<exists>r F. transforms ?body r (\<lambda>idx. merge_new idx F) \<and> tagged_pr pr F"
  proof (cases "resp_hf_hub_download env repo_id eval_file repo_type (RefsPr (num pr))")
    case (Inl e)
    have "transforms ?body (Inl e) (\<lambda>idx. merge_new idx [])"
      using transforms_bind_raise [OF transforms_call(1) [of env repo_id eval_file repo_type
            "RefsPr (num pr)", unfolded Inl]]
      by simp
    then show ?thesis using tagged_pr_Nil by blast
  next
    case (Inr path)
    note dl = transforms_call(1) [of env repo_id eval_file repo_type "RefsPr (num pr)",
        unfolded Inr]
    let ?rest = "\<lambda>path. io_bind (read_yaml env path) (\<lambda>content.
        if is_list content \<and> truthy content
        then for_each (record_pr_result pr eval_file) (list_items content)
        else io_return ())"
    have "\<exists>r F. transforms (?rest path) r (\<lambda>idx. merge_new idx F) \<and> tagged_pr pr F"
    proof (cases "resp_read_yaml env path")
      case (Inl e)
      have "transforms (?rest path) (Inl e) (\<lambda>idx. merge_new idx [])"
        using transforms_bind_raise [OF transforms_call(2) [of env path, unfolded Inl]]
        by simp
      then show ?thesis using tagged_pr_Nil by blast
    next
      case (Inr content)
      note rd = transforms_call(2) [of env path, unfolded Inr]
      let ?loop = "\<lambda>content. if is_list content \<and> truthy content
        then for_each (record_pr_result pr eval_file) (list_items content)
        else io_return ()"
      have "\<exists>r F. transforms (?loop content) r (\<lambda>idx. merge_new idx F) \<and> tagged_pr pr F"
      proof (cases "is_list content \<and> truthy content")
        case True
        then have "?loop content = for_each (record_pr_result pr eval_file) (list_items content)"
          by auto
        then show ?thesis using pr_records_transforms [of pr eval_file "list_items content"]
          by simp
      next
        case False
        then have "?loop content = io_return ()" by auto
        then have "transforms (?loop content) (Inr ()) (\<lambda>idx. merge_new idx [])"
          using transforms_return [of "()"] by simp
        then show ?thesis using tagged_pr_Nil by blast
      qed
      then obtain r F where lp: "transforms (?loop content) r (\<lambda>idx. merge_new idx F)"
        "tagged_pr pr F" by blast
      from transforms_bind [OF rd, of ?loop, OF lp(1)] lp(2) show ?thesis by blast
    qed
    then obtain r F where rs: "transforms (?rest path) r (\<lambda>idx. merge_new idx F)"
      "tagged_pr pr F" by blast
    from transforms_bind [OF dl, of ?rest, OF rs(1)] rs(2) show ?thesis by blast
  qed
  then obtain r F where b: "transforms ?body r (\<lambda>idx. merge_new idx F)" "tagged_pr pr F"
    by blast
  from transforms_try_print [OF b(1), of "\<lambda>e. [FStr ''Warning: Could not read '', FStr eval_file,
      FStr '' from PR #'', FInt (num pr), FStr '': '', FExn e]"] b(2)
  show ?thesis
    unfolding read_pr_file_def by blast
qed


lemma scan_pr_transforms:
  "\<exists>F. transforms (scan_pr env repo_id repo_type pr) (Inr ()) (\<lambda>idx. merge_new idx F) \<and>
       tagged_pr pr F"
proof -
  have "\<forall>eval_file. \<exists>F. transforms (read_pr_file env repo_id repo_type pr eval_file) (Inr ())
      (\<lambda>idx. merge_new idx F) \<and> tagged_pr pr F"
    using read_pr_file_transforms by blast
  then obtain Ff where Ff:
    "\<And>eval_file. transforms (read_pr_file env repo_id repo_type pr eval_file) (Inr ())
        (\<lambda>idx. merge_new idx (Ff eval_file))"
    "\<And>eval_file. tagged_pr pr (Ff eval_file)"
    by metis
  let ?loop = "\<lambda>pr_files. for_each (read_pr_file env repo_id repo_type pr)
      (filter is_eval_file pr_files)"
  let ?body = "io_bind (list_repo_files env repo_id repo_type (RefsPr (num pr))) ?loop"
  have "\<exists>r F. transforms ?body r (\<lambda>idx. merge_new idx F) \<and> tagged_pr pr F"
  proof (cases "resp_list_repo_files env repo_id repo_type (RefsPr (num pr))")
    case (Inl e)
    have "transforms ?body (Inl e) (\<lambda>idx. merge_new idx [])"
      using transforms_bind_raise [OF transforms_call(3) [of env repo_id repo_type
            "RefsPr (num pr)", unfolded Inl]]
      by simp
    then show ?thesis using tagged_pr_Nil by blast
  next
    case (Inr pr_files)
    note ls = transforms_call(3) [of env repo_id repo_type "RefsPr (num pr)", unfolded Inr]
    have lp: "transforms (?loop pr_files) (Inr ())
        (\<lambda>idx. merge_new idx (concat (map Ff (filter is_eval_file pr_files))))"
      by (rule transforms_for_each_total) (rule Ff(1))
    have "tagged_pr pr (concat (map Ff (filter is_eval_file pr_files)))"
      by (rule tagged_pr_concat) (rule Ff(2))
    with transforms_bind [OF ls, of ?loop, OF lp] show ?thesis by auto
  qed
  then obtain r F where b: "transforms ?body r (\<lambda>idx. merge_new idx F)" "tagged_pr pr F"
    by blast
  from transforms_try_print [OF b(1), of "\<lambda>e. [FStr ''Warning: Could not check PR #'',
      FInt (num pr), FStr '': '', FExn e]"] b(2)
  show ?thesis
    unfolding scan_pr_def by blast
qed

lemma pr_index_findings:
  assumes "transforms (scan_pr env repo_id repo_type pr) (Inr ()) (\<lambda>idx. merge_new idx F)"
  shows "map_of (pr_index env repo_id repo_type pr) k = map_of F k"
proof -
  obtain s' where "scan_pr env repo_id repo_type pr initial_state = (Inr (), s')"
    "existing_results s' = merge_new (existing_results initial_state) F"
    using transformsD [OF assms] by blast
  then have "pr_index env repo_id repo_type pr = merge_new [] F"
    by (simp add: pr_index_def initial_state_def)
  then show ?thesis by (simp add: map_of_merge_new)
qed

lemma scan_prs_transforms:
  "\<exists>Fp. (\<forall>pr. tagged_pr pr (Fp pr) \<and>
            (\<forall>k. map_of (pr_index env repo_id repo_type pr) k = map_of (Fp pr) k)) \<and>
        transforms (scan_prs env repo_id repo_type) (Inr ())
          (\<lambda>idx. merge_new idx (concat (map Fp (enumerated_prs env repo_id repo_type))))"
proof -
  have "\<forall>pr. \<exists>F. transforms (scan_pr env repo_id repo_type pr) (Inr ())
      (\<lambda>idx. merge_new idx F) \<and> tagged_pr pr F"
    using scan_pr_transforms by blast
  then obtain Fp where Fp:
    "\<And>pr. transforms (scan_pr env repo_id repo_type pr) (Inr ()) (\<lambda>idx. merge_new idx (Fp pr))"
    "\<And>pr. tagged_pr pr (Fp pr)"
    by metis
  let ?loop = "\<lambda>discussions. for_each (scan_pr env repo_id repo_type) (open_prs_of discussions)"
  let ?body = "io_bind (get_repo_discussions env repo_id repo_type) ?loop"
  let ?F = "concat (map Fp (enumerated_prs env repo_id repo_type))"
  have "\<exists>r. transforms ?body r (\<lambda>idx. merge_new idx ?F)"
  proof (cases "resp_get_repo_discussions env repo_id repo_type")
    case (Inl e)
    have "transforms ?body (Inl e) (\<lambda>idx. merge_new idx [])"
      using transforms_bind_raise [OF transforms_call(4) [of env repo_id repo_type, unfolded Inl]]
      by simp
    with Inl show ?thesis by (auto simp: enumerated_prs_def)
  next
    case (Inr discussions)
    note ds = transforms_call(4) [of env repo_id repo_type, unfolded Inr]
    have lp: "transforms (?loop discussions) (Inr ())
        (\<lambda>idx. merge_new idx (concat (map Fp (open_prs_of discussions))))"
      by (rule transforms_for_each_total) (rule Fp(1))
    from transforms_bind [OF ds, of ?loop, OF lp] Inr show ?thesis
      by (auto simp: enumerated_prs_def)
  qed
  then obtain r where b: "transforms ?body r (\<lambda>idx. merge_new idx ?F)" by blast
  have "transforms (scan_prs env repo_id repo_type) (Inr ()) (\<lambda>idx. merge_new idx ?F)"
    unfolding scan_prs_def
    by (rule transforms_try_print [OF b, of "\<lambda>e. [FStr ''Warning: Could not list PRs for '',
      FStr repo_id, FStr '': '', FExn e]"])
  with Fp(2) pr_index_findings [OF Fp(1)] show ?thesis
    by (intro exI [of _ Fp]) simp
qed


lemma keeps_main_id: "keeps_main (\<lambda>idx. idx)"
  by (simp add: keeps_main_def)

lemma keeps_main_comp: "keeps_main T \<Longrightarrow> keeps_main U \<Longrightarrow> keeps_main (\<lambda>idx. U (T idx))"
  by (simp add: keeps_main_def)

lemma keeps_main_dict_set:
  "keeps_main (dict_set k \<lparr>source = ''main'', pr_num = None, value = v, file_path = f\<rparr>)"
  unfolding keeps_main_def all_main_def
  by (auto dest!: set_dict_set)

lemma record_main_result_transforms:
  "\<exists>r T. transforms (record_main_result eval_file result) r T \<and> keeps_main T"
proof (cases result)
  case (PDict kvs)
  define dataset where
    "dataset = (case map_of kvs (KStr ''dataset'') of Some v \<Rightarrow> v | None \<Rightarrow> PDict [])"
  define v where "v = (case map_of kvs (KStr ''value'') of Some v \<Rightarrow> v | None \<Rightarrow> PNone)"
  show ?thesis
  proof (cases "py_get dataset ''id'' PNone")
    case (Inl e)
    with PDict have "transforms (record_main_result eval_file result) (Inl e) (\<lambda>idx. idx)"
      by (simp add: transforms_def record_main_result_def io_defs dataset_def)
    then show ?thesis using keeps_main_id by blast
  next
    case (Inr dataset_id)
    note id = this
    show ?thesis
    proof (cases "truthy dataset_id")
      case False
      with PDict id have "transforms (record_main_result eval_file result) (Inr ()) (\<lambda>idx. idx)"
        by (simp add: transforms_def record_main_result_def io_defs dataset_def)
      then show ?thesis using keeps_main_id by blast
    next
      case True
      show ?thesis
      proof (cases "hash_key dataset_id")
        case (Inl e)
        with PDict id True have
          "transforms (record_main_result eval_file result) (Inl e) (\<lambda>idx. idx)"
          by (simp add: transforms_def record_main_result_def io_defs dataset_def
                setitem_existing_results_def py_setitem_def bind_exn_def)
        then show ?thesis using keeps_main_id by blast
      next
        case (Inr k)
        let ?i = "\<lparr>source = ''main'', pr_num = None, value = v, file_path = eval_file\<rparr>"
        from PDict id True Inr have
          "transforms (record_main_result eval_file result) (Inr ()) (dict_set k ?i)"
          by (simp add: transforms_def record_main_result_def io_defs dataset_def v_def
                setitem_existing_results_def py_setitem_def bind_exn_def)
        then show ?thesis using keeps_main_dict_set by blast
      qed
    qed
  qed
qed (insert keeps_main_id,
     auto simp: transforms_def record_main_result_def io_defs intro!: exI [of _ "\<lambda>idx. idx"])

lemma read_main_file_transforms:
  "\<exists>T. transforms (read_main_file env repo_id repo_type eval_file) (Inr ()) T \<and> keeps_main T"
proof -
  let ?loop = "\<lambda>content. if is_list content \<and> truthy content
        then for_each (record_main_result eval_file) (list_items content)
        else io_return ()"
  let ?rest = "\<lambda>path. io_bind (read_yaml env path) ?loop"
  let ?body = "io_bind (hf_hub_download env repo_id eval_file repo_type DefaultRevision) ?rest"
  have loop: "\<exists>r T. transforms (?loop content) r T \<and> keeps_main T" for content
  proof (cases "is_list content \<and> truthy content")
    case True
    then have "?loop content = for_each (record_main_result eval_file) (list_items content)"
      by auto
    moreover have "\<exists>r T. transforms (for_each (record_main_result eval_file)
        (list_items content)) r T \<and> keeps_main T"
      by (rule transforms_for_each)
         (simp_all add: record_main_result_transforms keeps_main_id keeps_main_comp)
    ultimately show ?thesis by simp
  next
    case False
    then have "?loop content = io_return ()" by auto
    then show ?thesis using transforms_return [of "()"] keeps_main_id by auto
  qed
  have rest: "\<exists>r T. transforms (?rest path) r T \<and> keeps_main T" for path
  proof (cases "resp_read_yaml env path")
    case (Inl e)
    from transforms_bind_raise [OF transforms_call(2) [of env path, unfolded Inl]]
    show ?thesis using keeps_main_id by blast
  next
    case (Inr content)
    obtain r T where lp: "transforms (?loop content) r T" "keeps_main T"
      using loop by blast
    from transforms_bind [OF transforms_call(2) [of env path, unfolded Inr], of ?loop, OF lp(1)]
      lp(2)
    show ?thesis by blast
  qed
  have "\<exists>r T. transforms ?body r T \<and> keeps_main T"
  proof (cases "resp_hf_hub_download env repo_id eval_file repo_type DefaultRevision")
    case (Inl e)
    from transforms_bind_raise [OF transforms_call(1) [of env repo_id eval_file repo_type
          DefaultRevision, unfolded Inl]]
    show ?thesis using keeps_main_id by blast
  next
    case (Inr path)
    obtain r T where rs: "transforms (?rest path) r T" "keeps_main T"
      using rest by blast
    from transforms_bind [OF transforms_call(1) [of env repo_id eval_file repo_type
          DefaultRevision, unfolded Inr], of ?rest, OF rs(1)] rs(2)
    show ?thesis by blast
  qed
  then obtain r T where b: "transforms ?body r T" "keeps_main T" by blast
  from transforms_try_print [OF b(1), of "\<lambda>e. [FStr ''Warning: Could not read '',
      FStr eval_file, FStr '' from main branch: '', FExn e]"] b(2)
  show ?thesis unfolding read_main_file_def by blast
qed

lemma scan_main_transforms:
  "\<exists>T. transforms (scan_main env repo_id repo_type) (Inr ()) T \<and> keeps_main T"
proof -
  let ?loop = "\<lambda>fs. for_each (read_main_file env repo_id repo_type) (filter is_eval_file fs)"
  let ?body = "io_bind (list_repo_files env repo_id repo_type DefaultRevision) ?loop"
  have loop: "\<exists>r T. transforms (?loop fs) r T \<and> keeps_main T" for fs
  proof (rule transforms_for_each)
    fix x
    show "\<exists>r T. transforms (read_main_file env repo_id repo_type x) r T \<and> keeps_main T"
      using read_main_file_transforms by blast
  qed (simp_all add: keeps_main_id keeps_main_comp)
  have "\<exists>r T. transforms ?body r T \<and> keeps_main T"
  proof (cases "resp_list_repo_files env repo_id repo_type DefaultRevision")
    case (Inl e)
    from transforms_bind_raise [OF transforms_call(3) [of env repo_id repo_type DefaultRevision,
          unfolded Inl]]
    show ?thesis using keeps_main_id by blast
  next
    case (Inr fs)
    obtain r T where lp: "transforms (?loop fs) r T" "keeps_main T"
      using loop by blast
    from transforms_bind [OF transforms_call(3) [of env repo_id repo_type DefaultRevision,
          unfolded Inr], of ?loop, OF lp(1)] lp(2)
    show ?thesis by blast
  qed
  then obtain r T where b: "transforms ?body r T" "keeps_main T" by blast
  from transforms_try_print [OF b(1), of "\<lambda>e. [FStr ''Warning: Could not list files from '',
      FStr repo_id, FStr '': '', FExn e]"] b(2)
  show ?thesis unfolding scan_main_def by blast
qed

lemma map_of_concat_None:
  "(\<And>q. q \<in> set qs \<Longrightarrow> map_of (F q) k = None) \<Longrightarrow> map_of (concat (map F qs)) k = None"
  by (induction qs) (simp_all add: map_add_def)

text \<open>
  C2. In the index returned by \<^verbatim>\<open>get_existing_eval_results\<close>: a benchmark found on the
  main branch keeps the entry of the main branch, with source \<^verbatim>\<open>main\<close> and no
  pull-request number, whatever the open pull requests hold; a benchmark not found on the
  main branch has the entry of the first enumerated open pull request in which it is found,
  with source \<^verbatim>\<open>pr\<close> and the number of that pull request; a benchmark found nowhere
  has no entry; and the scan of the pull requests never changes an entry that is already
  in the index: it records a finding only for a key that is absent.
\<close>

theorem published_and_first_proposal_win:
  "\<exists>idx s'. get_existing_eval_results env repo_id repo_type s = (Inr idx, s') \<and>
     (\<forall>k e. map_of (main_index env repo_id repo_type) k = Some e \<longrightarrow>
        map_of idx k = Some e \<and> source e = ''main'' \<and> pr_num e = None) \<and>
     (\<forall>k pre p post e.
        map_of (main_index env repo_id repo_type) k = None \<and>
        enumerated_prs env repo_id repo_type = pre @ p # post \<and>
        (\<forall>q \<in> set pre. map_of (pr_index env repo_id repo_type q) k = None) \<and>
        map_of (pr_index env repo_id repo_type p) k = Some e \<longrightarrow>
        map_of idx k = Some e \<and> source e = ''pr'' \<and> pr_num e = Some (num p)) \<and>
     (\<forall>k. map_of (main_index env repo_id repo_type) k = None \<and>
        (\<forall>q \<in> set (enumerated_prs env repo_id repo_type).
           map_of (pr_index env repo_id repo_type q) k = None) \<longrightarrow>
        map_of idx k = None) \<and>
     (\<forall>t k e. map_of (existing_results t) k = Some e \<longrightarrow>
        map_of (existing_results (snd (scan_prs env repo_id repo_type t))) k = Some e)"
proof -
  obtain T where T: "transforms (scan_main env repo_id repo_type) (Inr ()) T" "keeps_main T"
    using scan_main_transforms by blast
  obtain Fp where Fp: "\<And>pr. tagged_pr pr (Fp pr)"
    "\<And>pr k. map_of (pr_index env repo_id repo_type pr) k = map_of (Fp pr) k"
    "transforms (scan_prs env repo_id repo_type) (Inr ())
       (\<lambda>idx. merge_new idx (concat (map Fp (enumerated_prs env repo_id repo_type))))"
    using scan_prs_transforms [of env repo_id repo_type] by blast
  let ?prs = "enumerated_prs env repo_id repo_type"
  let ?F = "concat (map Fp ?prs)"
  let ?m = "main_index env repo_id repo_type"
  have m: "?m = T []"
    using transformsD [OF T(1), of initial_state] by (auto simp: main_index_def initial_state_def)
  have "all_main []" by (simp add: all_main_def)
  with T(2) have am: "all_main ?m" by (simp add: m keeps_main_def)
  obtain s1 where 1: "scan_main env repo_id repo_type (s\<lparr>existing_results := []\<rparr>) = (Inr (), s1)"
    "existing_results s1 = ?m"
    using transformsD [OF T(1), of "s\<lparr>existing_results := []\<rparr>"] by (auto simp: m)
  obtain s2 where 2: "scan_prs env repo_id repo_type s1 = (Inr (), s2)"
    "existing_results s2 = merge_new ?m ?F"
    using transformsD [OF Fp(3), of s1] 1(2) by auto
  have run: "get_existing_eval_results env repo_id repo_type s = (Inr (merge_new ?m ?F), s2)"
    using 1 2 by (simp add: get_existing_eval_results_def io_bind_def io_modify_def io_get_def)
  have A: "map_of (merge_new ?m ?F) k = Some e \<and> source e = ''main'' \<and> pr_num e = None"
    if "map_of ?m k = Some e" for k e
  proof -
    from that have "(k, e) \<in> set ?m" by (rule map_of_SomeD)
    with am have "source e = ''main'' \<and> pr_num e = None" by (auto simp: all_main_def)
    with that show ?thesis by (simp add: map_of_merge_new)
  qed
  have B: "map_of (merge_new ?m ?F) k = Some e \<and> source e = ''pr'' \<and> pr_num e = Some (num p)"
    if "map_of ?m k = None" "?prs = pre @ p # post"
      "\<forall>q \<in> set pre. map_of (pr_index env repo_id repo_type q) k = None"
      "map_of (pr_index env repo_id repo_type p) k = Some e" for k pre p post e
  proof -
    have "map_of (concat (map Fp pre)) k = None"
      using that(3) by (intro map_of_concat_None) (simp add: Fp(2))
    moreover have p: "map_of (Fp p) k = Some e" using that(4) by (simp add: Fp(2))
    ultimately have "map_of ?F k = Some e"
      by (simp add: that(2) map_add_def)
    moreover from p have "(k, e) \<in> set (Fp p)" by (rule map_of_SomeD)
    with Fp(1) [of p] have "source e = ''pr'' \<and> pr_num e = Some (num p)"
      by (auto simp: tagged_pr_def)
    ultimately show ?thesis using that(1) by (simp add: map_of_merge_new)
  qed
  have C: "map_of (merge_new ?m ?F) k = None"
    if "map_of ?m k = None"
      "\<forall>q \<in> set ?prs. map_of (pr_index env repo_id repo_type q) k = None" for k
  proof -
    have "map_of ?F k = None"
      using that(2) by (intro map_of_concat_None) (simp add: Fp(2))
    with that(1) show ?thesis by (simp add: map_of_merge_new)
  qed
  have D: "map_of (existing_results (snd (scan_prs env repo_id repo_type t))) k = Some e"
    if "map_of (existing_results t) k = Some e" for t k e
    using transformsD [OF Fp(3), of t] that by (auto simp: map_of_merge_new)
  from run A B C D show ?thesis by blast
qed


lemmas acme_defs = acme_hub_def acme_files_def acme_cache_path_def acme_yaml_def
  acme_discussions_def result_record_def pr7_def pr9_def initial_state_def

theorem published_and_first_proposal_win_witness:
  "map_of (main_index acme_hub ''acme/model-x'' ''model'') (KStr ''cais/hle'') =
     Some \<lparr>source = ''main'', pr_num = None, value = PFloat 40,
           file_path = ''.eval_results/hle.yaml''\<rparr> \<and>
   map_of (pr_index acme_hub ''acme/model-x'' ''model'' pr7) (KStr ''cais/hle'') =
     Some \<lparr>source = ''pr'', pr_num = Some 7, value = PFloat 42,
           file_path = ''.eval_results/hle.yaml''\<rparr> \<and>
   map_of (main_index acme_hub ''acme/model-x'' ''model'') (KStr ''openai/gsm8k'') = None \<and>
   enumerated_prs acme_hub ''acme/model-x'' ''model'' = [pr7, pr9] \<and>
   map_of (pr_index acme_hub ''acme/model-x'' ''model'' pr7) (KStr ''openai/gsm8k'') =
     Some \<lparr>source = ''pr'', pr_num = Some 7, value = PFloat 91,
           file_path = ''.eval_results/gsm8k.yaml''\<rparr> \<and>
   map_of (pr_index acme_hub ''acme/model-x'' ''model'' pr9) (KStr ''openai/gsm8k'') =
     Some \<lparr>source = ''pr'', pr_num = Some 9, value = PFloat 93,
           file_path = ''.eval_results/gsm8k.yaml''\<rparr> \<and>
   fst (get_existing_eval_results acme_hub ''acme/model-x'' ''model'' initial_state) =
     Inr [(KStr ''cais/hle'',
           \<lparr>source = ''main'', pr_num = None, value = PFloat 40,
            file_path = ''.eval_results/hle.yaml''\<rparr>),
          (KStr ''openai/gsm8k'',
           \<lparr>source = ''pr'', pr_num = Some 7, value = PFloat 91,
            file_path = ''.eval_results/gsm8k.yaml''\<rparr>)]"
proof -
  let ?main40 = "\<lparr>source = ''main'', pr_num = None, value = PFloat 40,
           file_path = ''.eval_results/hle.yaml''\<rparr>"
  let ?pr7_91 = "\<lparr>source = ''pr'', pr_num = Some 7, value = PFloat 91,
           file_path = ''.eval_results/gsm8k.yaml''\<rparr>"
  have m: "main_index acme_hub ''acme/model-x'' ''model'' = [(KStr ''cais/hle'', ?main40)]"
    by (simp add: main_index_def run_defs acme_defs)
  have p7: "pr_index acme_hub ''acme/model-x'' ''model'' pr7 =
      [(KStr ''cais/hle'', \<lparr>source = ''pr'', pr_num = Some 7, value = PFloat 42,
           file_path = ''.eval_results/hle.yaml''\<rparr>),
       (KStr ''openai/gsm8k'', ?pr7_91)]"
    by (simp add: pr_index_def run_defs acme_defs)
  have p9: "pr_index acme_hub ''acme/model-x'' ''model'' pr9 =
      [(KStr ''openai/gsm8k'', \<lparr>source = ''pr'', pr_num = Some 9, value = PFloat 93,
           file_path = ''.eval_results/gsm8k.yaml''\<rparr>)]"
    by (simp add: pr_index_def run_defs acme_defs)
  have prs: "enumerated_prs acme_hub ''acme/model-x'' ''model'' = [] @ pr7 # [pr9]"
    by (simp add: enumerated_prs_def open_prs_of_def acme_defs)
  have run: "fst (get_existing_eval_results acme_hub ''acme/model-x'' ''model'' initial_state) =
     Inr [(KStr ''cais/hle'', ?main40), (KStr ''openai/gsm8k'', ?pr7_91)]"
    by (simp add: run_defs acme_defs)
  from published_and_first_proposal_win [of acme_hub "''acme/model-x''" "''model''" initial_state]
  obtain idx s' where
    r: "get_existing_eval_results acme_hub ''acme/model-x'' ''model'' initial_state = (Inr idx, s')"
    and a: "\<forall>k e. map_of (main_index acme_hub ''acme/model-x'' ''model'') k = Some e \<longrightarrow>
        map_of idx k = Some e \<and> source e = ''main'' \<and> pr_num e = None"
    and b: "\<forall>k pre p post e.
        map_of (main_index acme_hub ''acme/model-x'' ''model'') k = None \<and>
        enumerated_prs acme_hub ''acme/model-x'' ''model'' = pre @ p # post \<and>
        (\<forall>q \<in> set pre. map_of (pr_index acme_hub ''acme/model-x'' ''model'' q) k = None) \<and>
        map_of (pr_index acme_hub ''acme/model-x'' ''model'' p) k = Some e \<longrightarrow>
        map_of idx k = Some e \<and> source e = ''pr'' \<and> pr_num e = Some (num p)"
    by (elim exE conjE)
  have "map_of idx (KStr ''cais/hle'') = Some ?main40"
    using a [rule_format, of "KStr ''cais/hle''" ?main40] by (simp add: m)
  moreover have "map_of idx (KStr ''openai/gsm8k'') = Some ?pr7_91"
    using b [rule_format, of "KStr ''openai/gsm8k''" "[]" pr7 "[pr9]" ?pr7_91] prs
    by (simp add: m p7)
  ultimately show ?thesis
    using r run prs by (simp add: m p7 p9)
qed

end
